theory Spec2Isabelle
  imports Complex_Main
begin

section \<open>Data model\<close>

text \<open>
  The job queue keeps its jobs in the table \<open>jobs\<close> (class \<open>JobModel\<close>) and archives dead
  jobs in the table \<open>dlq\<close> (class \<open>DLQModel\<close>). The domain class \<open>Job\<close> has the same
  thirteen attributes as \<open>JobModel\<close>, and \<open>JobRepository._model_to_domain\<close> copies them one
  by one, so a single record stands for both.

  A UUID is represented by its canonical text, so that \<open>str(job.id)\<close> is the identity.
  A \<open>datetime\<close> is the number of seconds since the epoch, as an exact rational; every
  reading of \<open>datetime.utcnow()\<close> that an operation takes is one of its arguments, in the
  order in which the source takes them.
  The JSON payload is opaque to the engine and represented by its text.
\<close>

type_synonym uuid = string
type_synonym datetime = rat
type_synonym payload = string

datatype JobStatus = PENDING | RUNNING | COMPLETED | FAILED | DLQ

record Job =
  job_id :: uuid
  tenant_id :: string
  status :: JobStatus
  payload :: payload
  idempotency_key :: "string option"
  max_retries :: int
  retry_count :: int
  created_at :: datetime
  started_at :: "datetime option"
  completed_at :: "datetime option"
  error_message :: "string option"
  lease_expires_at :: "datetime option"
  trace_id :: string

record DLQModel =
  dlq_id :: uuid
  original_job_id :: uuid
  dlq_tenant_id :: string
  dlq_payload :: payload
  dlq_error_message :: "string option"
  dlq_retry_count :: int
  failed_at :: datetime
  dlq_trace_id :: string

record User =
  user_id :: string
  api_key_hash :: string
  max_concurrent_jobs :: int
  rate_limit_per_minute :: int
  name :: "string option"

text \<open>
  The payload dictionaries handed to \<open>event_bus.publish\<close> are association lists from field
  name to value.
\<close>

datatype field = FStr string | FInt int

type_synonym event = "string \<times> (string \<times> field) list"

text \<open>
  The state shared by the services and the workers: the two tables, and the sequence of
  calls made to \<open>event_bus.publish\<close> (topic and payload), oldest first.
\<close>

record world =
  jobs :: "Job list"
  dlq :: "DLQModel list"
  published :: "event list"

datatype error =
    Exception string
  | JobNotFoundError uuid
  | QuotaExceededError int int
  | RateLimitExceededError int
  | MultipleResultsFound
  | IntegrityError
  | RequestValidationError

text \<open>Python truthiness of an \<open>Optional[str]\<close>: \<open>None\<close> and the empty string are false.\<close>

fun truthy :: "string option \<Rightarrow> bool" where
  "truthy None = False"
| "truthy (Some s) = (s \<noteq> [])"

section \<open>Job (core/domain/job.py)\<close>

definition can_retry :: "Job \<Rightarrow> bool" where
  "can_retry j = (retry_count j < max_retries j)"

definition should_move_to_dlq :: "Job \<Rightarrow> bool" where
  "should_move_to_dlq j = (status j = FAILED \<and> \<not> can_retry j)"

text \<open>
  \<open>Job.__init__\<close> as \<open>submit_job\<close> calls it: the identifier, the creation time and the trace
  identifier are drawn by \<open>uuid4()\<close> and \<open>utcnow()\<close>; every other attribute takes its default.
\<close>

definition new_Job :: "uuid \<Rightarrow> datetime \<Rightarrow> string \<Rightarrow> string \<Rightarrow> payload \<Rightarrow> string option \<Rightarrow> int \<Rightarrow> Job" where
  "new_Job new_id now new_trace tid p key mr =
     \<lparr> job_id = new_id, tenant_id = tid, status = PENDING, payload = p,
       idempotency_key = key, max_retries = mr, retry_count = 0, created_at = now,
       started_at = None, completed_at = None, error_message = None,
       lease_expires_at = None, trace_id = new_trace \<rparr>"

section \<open>JobRepository (infrastructure/persistence/repositories/job_repository.py)\<close>

text \<open>
  An SQL \<open>UPDATE ... WHERE c SET f\<close> rewrites every row that satisfies \<open>c\<close> and keeps the
  others, in place; its \<open>rowcount\<close> is the number of rows that satisfied \<open>c\<close>.
\<close>

definition sql_update :: "(Job \<Rightarrow> bool) \<Rightarrow> (Job \<Rightarrow> Job) \<Rightarrow> world \<Rightarrow> world" where
  "sql_update c f w = w\<lparr>jobs := map (\<lambda>r. if c r then f r else r) (jobs w)\<rparr>"

definition rowcount :: "(Job \<Rightarrow> bool) \<Rightarrow> world \<Rightarrow> nat" where
  "rowcount c w = length (filter c (jobs w))"

text \<open>
  \<open>create\<close> inserts a row with the job's own status and the nine attributes it passes; the
  four others take the column default \<open>NULL\<close>. The only constraint of the table is its
  primary key: the indices on \<open>idempotency_key\<close> and on \<open>(tenant_id, idempotency_key)\<close> are
  plain indices.
\<close>

definition create :: "Job \<Rightarrow> world \<Rightarrow> (error + Job) \<times> world" where
  "create job w =
     (let job_model = \<lparr> job_id = job_id job, tenant_id = tenant_id job, status = status job,
                        payload = payload job, idempotency_key = idempotency_key job,
                        max_retries = max_retries job, retry_count = retry_count job,
                        created_at = created_at job, started_at = None, completed_at = None,
                        error_message = None, lease_expires_at = None,
                        trace_id = trace_id job \<rparr>
      in if job_id job \<in> set (map job_id (jobs w)) then (Inl IntegrityError, w)
         else (Inr job_model, w\<lparr>jobs := jobs w @ [job_model]\<rparr>))"

text \<open>The primary key makes the row with a given identifier unique.\<close>

definition get_by_id :: "uuid \<Rightarrow> world \<Rightarrow> Job option" where
  "get_by_id jid w = find (\<lambda>r. job_id r = jid) (jobs w)"

text \<open>\<open>scalar_one_or_none\<close> raises when the query has more than one row.\<close>

definition get_by_idempotency_key :: "string \<Rightarrow> string \<Rightarrow> world \<Rightarrow> error + Job option" where
  "get_by_idempotency_key tid key w =
     (case filter (\<lambda>r. tenant_id r = tid \<and> idempotency_key r = Some key) (jobs w) of
        [] \<Rightarrow> Inr None
      | [r] \<Rightarrow> Inr (Some r)
      | _ \<Rightarrow> Inl MultipleResultsFound)"

definition update_data :: "datetime \<Rightarrow> JobStatus \<Rightarrow> string option \<Rightarrow> Job \<Rightarrow> Job" where
  "update_data now st msg r =
     (let r1 = r\<lparr>status := st\<rparr>;
          r2 = (if truthy msg then r1\<lparr>error_message := msg\<rparr> else r1)
      in if st = RUNNING then r2\<lparr>started_at := Some now\<rparr>
         else if st \<in> {COMPLETED, FAILED, DLQ} then r2\<lparr>completed_at := Some now\<rparr>
         else r2)"

definition update_status :: "datetime \<Rightarrow> uuid \<Rightarrow> JobStatus \<Rightarrow> string option \<Rightarrow> world \<Rightarrow> (error + Job) \<times> world" where
  "update_status now jid st msg w =
     (let w' = sql_update (\<lambda>r. job_id r = jid) (update_data now st msg) w
      in case get_by_id jid w' of
           None \<Rightarrow> (Inl (JobNotFoundError jid), w')
         | Some job \<Rightarrow> (Inr job, w'))"

definition lease_available :: "datetime \<Rightarrow> Job \<Rightarrow> bool" where
  "lease_available now r =
     (status r = PENDING \<and>
      (case lease_expires_at r of None \<Rightarrow> True | Some t \<Rightarrow> t < now))"

text \<open>
  \<open>acquire_lease\<close> reads the clock three times: for the expiry (before the statement is
  built), inside the \<open>WHERE\<close> clause, and for \<open>started_at\<close>.
\<close>

definition acquire_lease :: "datetime \<Rightarrow> datetime \<Rightarrow> datetime \<Rightarrow> uuid \<Rightarrow> int \<Rightarrow> world \<Rightarrow> bool \<times> world" where
  "acquire_lease t_exp t_where t_start jid lease_ttl_seconds w =
     (let lease_expires = t_exp + of_int lease_ttl_seconds;
          c = (\<lambda>r. job_id r = jid \<and> lease_available t_where r)
      in (rowcount c w > 0,
          sql_update c (\<lambda>r. r\<lparr>status := RUNNING, lease_expires_at := Some lease_expires,
                               started_at := Some t_start\<rparr>) w))"

definition release_lease :: "uuid \<Rightarrow> world \<Rightarrow> world" where
  "release_lease jid w = sql_update (\<lambda>r. job_id r = jid) (\<lambda>r. r\<lparr>lease_expires_at := None\<rparr>) w"

definition increment_retry :: "uuid \<Rightarrow> world \<Rightarrow> (error + Job) \<times> world" where
  "increment_retry jid w =
     (let w' = sql_update (\<lambda>r. job_id r = jid)
                 (\<lambda>r. r\<lparr>retry_count := retry_count r + 1, status := PENDING,
                        lease_expires_at := None, started_at := None,
                        error_message := None\<rparr>) w
      in case get_by_id jid w' of
           None \<Rightarrow> (Inl (JobNotFoundError jid), w')
         | Some job \<Rightarrow> (Inr job, w'))"

text \<open>
  \<open>ORDER BY created_at ASC LIMIT n\<close> over the rows that can be leased. Rows with equal
  \<open>created_at\<close> keep their table order (\<open>sort_key\<close> is stable).
\<close>

definition get_pending_jobs_for_dequeue :: "datetime \<Rightarrow> nat \<Rightarrow> world \<Rightarrow> Job list" where
  "get_pending_jobs_for_dequeue now limit w =
     take limit (sort_key created_at (filter (lease_available now) (jobs w)))"

text \<open>
  \<open>count_by_status\<close> filters by tenant only when the tenant identifier is truthy.
\<close>

definition count_by_status :: "JobStatus \<Rightarrow> string option \<Rightarrow> world \<Rightarrow> int" where
  "count_by_status st tid w =
     int (length (filter (\<lambda>r. status r = st \<and> (truthy tid \<longrightarrow> Some (tenant_id r) = tid)) (jobs w)))"

definition count_running_jobs :: "string \<Rightarrow> world \<Rightarrow> int" where
  "count_running_jobs tid w = count_by_status RUNNING (Some tid) w"

text \<open>
  \<open>move_to_dlq\<close> adds the archive row to the session and calls \<open>update_status\<close>, which
  reads the clock for \<open>completed_at\<close> and whose statement and commit write both rows. The
  archive row's identifier is drawn by \<open>uuid4()\<close>; its \<open>failed_at\<close> is the column default
  \<open>utcnow()\<close>, read when the row is written, after the reading of \<open>update_status\<close>. When
  \<open>update_status\<close> raises, the archive row is already committed.
\<close>

definition move_to_dlq :: "uuid \<Rightarrow> datetime \<Rightarrow> datetime \<Rightarrow> Job \<Rightarrow> string \<Rightarrow> world \<Rightarrow> (error + unit) \<times> world" where
  "move_to_dlq new_id t_completed t_failed job msg w =
     (let dlq_model = \<lparr> dlq_id = new_id, original_job_id = job_id job,
                        dlq_tenant_id = tenant_id job, dlq_payload = payload job,
                        dlq_error_message = Some msg, dlq_retry_count = retry_count job,
                        failed_at = t_failed, dlq_trace_id = trace_id job \<rparr>;
          w1 = w\<lparr>dlq := dlq w @ [dlq_model]\<rparr>
      in case update_status t_completed (job_id job) DLQ (Some msg) w1 of
           (Inl e, w2) \<Rightarrow> (Inl e, w2)
         | (Inr _, w2) \<Rightarrow> (Inr (), w2))"

section \<open>PostgreSQLQueueStrategy (infrastructure/queue/postgresql_queue.py)\<close>

definition enqueue :: "Job \<Rightarrow> world \<Rightarrow> (error + unit) \<times> world" where
  "enqueue job w = (case create job w of (Inl e, w') \<Rightarrow> (Inl e, w') | (Inr _, w') \<Rightarrow> (Inr (), w'))"

definition dequeue :: "datetime \<Rightarrow> world \<Rightarrow> Job option" where
  "dequeue now w =
     (case get_pending_jobs_for_dequeue now 1 w of [] \<Rightarrow> None | j # _ \<Rightarrow> Some j)"

text \<open>\<open>ack\<close> swallows \<open>JobNotFoundError\<close>, the only error \<open>update_status\<close> raises.\<close>

definition ack :: "datetime \<Rightarrow> uuid \<Rightarrow> bool \<Rightarrow> string option \<Rightarrow> world \<Rightarrow> world" where
  "ack now jid success msg w =
     (if success then snd (update_status now jid COMPLETED None w)
      else snd (update_status now jid FAILED msg w))"

section \<open>Enumerations (core/domain/enums.py)\<close>

datatype JobEvent = E_SUBMITTED | E_STARTED | E_COMPLETED | E_FAILED | E_RETRY | E_DLQ

fun JobEvent_value :: "JobEvent \<Rightarrow> string" where
  "JobEvent_value E_SUBMITTED = ''submitted''"
| "JobEvent_value E_STARTED = ''started''"
| "JobEvent_value E_COMPLETED = ''completed''"
| "JobEvent_value E_FAILED = ''failed''"
| "JobEvent_value E_RETRY = ''retry''"
| "JobEvent_value E_DLQ = ''dlq''"

fun JobStatus_value :: "JobStatus \<Rightarrow> string" where
  "JobStatus_value PENDING = ''pending''"
| "JobStatus_value RUNNING = ''running''"
| "JobStatus_value COMPLETED = ''completed''"
| "JobStatus_value FAILED = ''failed''"
| "JobStatus_value DLQ = ''dlq''"

section \<open>QuotaService, IdempotencyService, JobService (core/services)\<close>

definition check_concurrent_jobs_limit :: "User \<Rightarrow> world \<Rightarrow> error + unit" where
  "check_concurrent_jobs_limit user w =
     (let running_jobs_count = count_running_jobs (user_id user) w
      in if running_jobs_count \<ge> max_concurrent_jobs user
         then Inl (QuotaExceededError running_jobs_count (max_concurrent_jobs user))
         else Inr ())"

definition check_idempotency :: "string \<Rightarrow> string option \<Rightarrow> world \<Rightarrow> error + Job option" where
  "check_idempotency tid key w =
     (case key of
        None \<Rightarrow> Inr None
      | Some k \<Rightarrow> if k = [] then Inr None else get_by_idempotency_key tid k w)"

text \<open>
  \<open>submit_job\<close>: the quota check, then the idempotency lookup (only for a truthy key), then
  the construction of the job and its insertion. The three leading arguments are what
  \<open>Job.__init__\<close> draws from \<open>uuid4()\<close> and \<open>utcnow()\<close>.
\<close>

definition submit_job :: "uuid \<Rightarrow> datetime \<Rightarrow> string \<Rightarrow> User \<Rightarrow> payload \<Rightarrow> string option \<Rightarrow> int \<Rightarrow> world \<Rightarrow> (error + Job) \<times> world" where
  "submit_job new_id now new_trace user p key mr w =
     (case check_concurrent_jobs_limit user w of
        Inl e \<Rightarrow> (Inl e, w)
      | Inr _ \<Rightarrow>
          (case (if truthy key then check_idempotency (user_id user) key w else Inr None) of
             Inl e \<Rightarrow> (Inl e, w)
           | Inr (Some existing_job) \<Rightarrow> (Inr existing_job, w)
           | Inr None \<Rightarrow>
               (let job = new_Job new_id now new_trace (user_id user) p key mr
                in case enqueue job w of
                     (Inl e, w') \<Rightarrow> (Inl e, w')
                   | (Inr _, w') \<Rightarrow> (Inr job, w'))))"

section \<open>The submission route (api/routes/jobs.py, api/schemas/job_schemas.py)\<close>

definition publish_event :: "string \<Rightarrow> (string \<times> field) list \<Rightarrow> world \<Rightarrow> world" where
  "publish_event topic data w = w\<lparr>published := published w @ [(topic, data)]\<rparr>"

text \<open>
  \<open>JobCreateRequest\<close> admits \<open>max_retries\<close> between 0 and 10 only; the route then calls
  \<open>submit_job\<close> and publishes under the topic \<open>job_submitted\<close>.
\<close>

definition create_job :: "uuid \<Rightarrow> datetime \<Rightarrow> string \<Rightarrow> User \<Rightarrow> payload \<Rightarrow> string option \<Rightarrow> int \<Rightarrow> world \<Rightarrow> (error + Job) \<times> world" where
  "create_job new_id now new_trace current_user p key mr w =
     (if \<not> (0 \<le> mr \<and> mr \<le> 10) then (Inl RequestValidationError, w)
      else case submit_job new_id now new_trace current_user p key mr w of
             (Inl e, w') \<Rightarrow> (Inl e, w')
           | (Inr job, w') \<Rightarrow>
               (Inr job,
                publish_event ''job_submitted''
                  [(''job_id'', FStr (job_id job)), (''tenant_id'', FStr (tenant_id job)),
                   (''status'', FStr (JobStatus_value (status job))),
                   (''trace_id'', FStr (trace_id job))] w'))"

section \<open>Worker (workers/worker.py, workers/lease_manager.py)\<close>

text \<open>
  The processor is a parameter: on a payload it either returns a result (\<open>Inr\<close>) or raises
  an exception whose \<open>str()\<close> is the given text (\<open>Inl\<close>). \<open>EventBus.publish\<close> catches what its
  handlers raise, so each call of the worker is recorded and continues.
\<close>

type_synonym processor = "payload \<Rightarrow> string + string"

definition lm_acquire_lease :: "datetime \<Rightarrow> datetime \<Rightarrow> datetime \<Rightarrow> int \<Rightarrow> Job \<Rightarrow> world \<Rightarrow> bool \<times> world" where
  "lm_acquire_lease t_exp t_where t_start lease_ttl_seconds job w =
     acquire_lease t_exp t_where t_start (job_id job) lease_ttl_seconds w"

definition failed_event :: "string \<Rightarrow> string \<Rightarrow> Job option \<Rightarrow> (string \<times> field) list" where
  "failed_event worker_id msg job =
     [(''job_id'', FStr (case job of Some j \<Rightarrow> job_id j | None \<Rightarrow> ''unknown'')),
      (''tenant_id'', FStr (case job of Some j \<Rightarrow> tenant_id j | None \<Rightarrow> ''unknown'')),
      (''worker_id'', FStr worker_id),
      (''error'', FStr msg),
      (''trace_id'', FStr (case job of Some j \<Rightarrow> trace_id j | None \<Rightarrow> ''unknown''))]"

text \<open>
  The \<open>except\<close> branch of \<open>process_job\<close>, entered with the text of the exception. An
  exception raised inside it leaves \<open>process_job\<close>.
\<close>

definition process_job_except :: "string \<Rightarrow> datetime \<Rightarrow> uuid \<Rightarrow> datetime \<Rightarrow> datetime \<Rightarrow> Job \<Rightarrow> string \<Rightarrow> world \<Rightarrow> (error + unit) \<times> world" where
  "process_job_except worker_id t_ack new_dlq_id t_dlq t_failed job0 msg w =
     (case update_status t_ack (job_id job0) FAILED (Some msg) w of
        (Inl e, w1) \<Rightarrow> (Inl e, w1)
      | (Inr _, w1) \<Rightarrow>
          (case get_by_id (job_id job0) w1 of
             Some job \<Rightarrow>
               if can_retry job then
                 (case increment_retry (job_id job) w1 of
                    (Inl e, w2) \<Rightarrow> (Inl e, w2)
                  | (Inr _, w2) \<Rightarrow>
                      (Inr (),
                       publish_event (JobEvent_value E_FAILED) (failed_event worker_id msg (Some job))
                         (publish_event (JobEvent_value E_RETRY)
                            [(''job_id'', FStr (job_id job)), (''tenant_id'', FStr (tenant_id job)),
                             (''retry_count'', FInt (retry_count job)),
                             (''trace_id'', FStr (trace_id job))] w2)))
               else
                 (case move_to_dlq new_dlq_id t_dlq t_failed job msg w1 of
                    (Inl e, w2) \<Rightarrow> (Inl e, w2)
                  | (Inr _, w2) \<Rightarrow>
                      (Inr (),
                       publish_event (JobEvent_value E_FAILED) (failed_event worker_id msg (Some job))
                         (publish_event (JobEvent_value E_DLQ)
                            [(''job_id'', FStr (job_id job)), (''tenant_id'', FStr (tenant_id job)),
                             (''error_message'', FStr msg),
                             (''trace_id'', FStr (trace_id job))] w2)))
           | None \<Rightarrow>
               (Inr (), publish_event (JobEvent_value E_FAILED) (failed_event worker_id msg None) w1)))"

definition process_job :: "string \<Rightarrow> processor \<Rightarrow> datetime \<Rightarrow> uuid \<Rightarrow> datetime \<Rightarrow> datetime \<Rightarrow> Job \<Rightarrow> world \<Rightarrow> (error + unit) \<times> world" where
  "process_job worker_id job_processor t_ack new_dlq_id t_dlq t_failed job w =
     (let w1 = publish_event (JobEvent_value E_STARTED)
                 [(''job_id'', FStr (job_id job)), (''tenant_id'', FStr (tenant_id job)),
                  (''worker_id'', FStr worker_id), (''trace_id'', FStr (trace_id job))] w
      in case job_processor (payload job) of
           Inl msg \<Rightarrow> process_job_except worker_id t_ack new_dlq_id t_dlq t_failed job msg w1
         | Inr result \<Rightarrow>
             (case update_status t_ack (job_id job) COMPLETED None w1 of
                (Inl e, w2) \<Rightarrow>
                  process_job_except worker_id t_ack new_dlq_id t_dlq t_failed job
                    (''Job '' @ job_id job @ '' not found'') w2
              | (Inr _, w2) \<Rightarrow>
                  (Inr (),
                   publish_event (JobEvent_value E_COMPLETED)
                     [(''job_id'', FStr (job_id job)), (''tenant_id'', FStr (tenant_id job)),
                      (''worker_id'', FStr worker_id), (''trace_id'', FStr (trace_id job)),
                      (''result'', FStr result)] w2)))"

text \<open>
  \<open>run_once\<close>: dequeue, lease, process. Every exception ends the iteration with \<open>False\<close>;
  what was committed before it stays.
\<close>

definition run_once :: "string \<Rightarrow> processor \<Rightarrow> int \<Rightarrow> datetime \<Rightarrow> datetime \<Rightarrow> datetime \<Rightarrow> datetime \<Rightarrow> datetime \<Rightarrow> uuid \<Rightarrow> datetime \<Rightarrow> datetime \<Rightarrow> world \<Rightarrow> bool \<times> world" where
  "run_once worker_id job_processor lease_ttl_seconds t_deq t_exp t_lease t_start t_ack new_dlq_id t_dlq t_failed w =
     (case dequeue t_deq w of
        None \<Rightarrow> (False, w)
      | Some job \<Rightarrow>
          (case lm_acquire_lease t_exp t_lease t_start lease_ttl_seconds job w of
             (False, w1) \<Rightarrow> (False, w1)
           | (True, w1) \<Rightarrow>
               (case process_job worker_id job_processor t_ack new_dlq_id t_dlq t_failed job w1 of
                  (Inl e, w2) \<Rightarrow> (False, w2)
                | (Inr _, w2) \<Rightarrow> (True, w2))))"

section \<open>TokenBucket and RateLimiter (core/services/rate_limiter.py)\<close>

text \<open>
  The token balance and the refill rate are Python floats; they are taken here as exact
  rationals, so that \<open>rate_per_minute / 60.0\<close> is the fraction itself.
\<close>

record TokenBucket =
  capacity :: int
  refill_rate :: rat
  tokens :: rat
  last_refill :: datetime

definition TokenBucket_init :: "datetime \<Rightarrow> int \<Rightarrow> rat \<Rightarrow> TokenBucket" where
  "TokenBucket_init now cap rate =
     \<lparr> capacity = cap, refill_rate = rate, tokens = of_int cap, last_refill = now \<rparr>"

definition refill :: "datetime \<Rightarrow> TokenBucket \<Rightarrow> TokenBucket" where
  "refill now b =
     (let elapsed = now - last_refill b;
          tokens_to_add = elapsed * refill_rate b
      in b\<lparr>tokens := min (of_int (capacity b)) (tokens b + tokens_to_add), last_refill := now\<rparr>)"

definition consume :: "datetime \<Rightarrow> int \<Rightarrow> TokenBucket \<Rightarrow> bool \<times> TokenBucket" where
  "consume now n b =
     (let b1 = refill now b
      in if tokens b1 \<ge> of_int n then (True, b1\<lparr>tokens := tokens b1 - of_int n\<rparr>)
         else (False, b1))"

type_synonym RateLimiter = "string \<rightharpoonup> TokenBucket"

definition get_bucket_key :: "string \<Rightarrow> string" where
  "get_bucket_key tid = ''rate_limit:'' @ tid"

definition get_or_create_bucket :: "datetime \<Rightarrow> string \<Rightarrow> int \<Rightarrow> RateLimiter \<Rightarrow> TokenBucket \<times> RateLimiter" where
  "get_or_create_bucket t_new tid rate_per_minute buckets =
     (let key = get_bucket_key tid
      in case buckets key of
           None \<Rightarrow>
             (let b = TokenBucket_init t_new rate_per_minute (of_int rate_per_minute / 60)
              in (b, buckets(key \<mapsto> b)))
         | Some b \<Rightarrow> (b, buckets))"

text \<open>
  \<open>check_rate_limit\<close>: \<open>t_new\<close> is the clock reading of \<open>TokenBucket.__init__\<close>, taken only
  when the bucket is created, and \<open>now\<close> the reading of \<open>refill\<close>. The bucket object is
  mutated in place, also when the call raises.
\<close>

definition check_rate_limit :: "datetime \<Rightarrow> datetime \<Rightarrow> string \<Rightarrow> int \<Rightarrow> RateLimiter \<Rightarrow> (error + unit) \<times> RateLimiter" where
  "check_rate_limit t_new now tid rate_per_minute buckets =
     (case get_or_create_bucket t_new tid rate_per_minute buckets of
        (bucket, buckets1) \<Rightarrow>
          (case consume now 1 bucket of
             (ok, bucket') \<Rightarrow>
               (let buckets2 = buckets1(get_bucket_key tid \<mapsto> bucket')
                in if \<not> ok then (Inl (RateLimitExceededError rate_per_minute), buckets2)
                   else (Inr (), buckets2))))"

definition reset_bucket :: "string \<Rightarrow> RateLimiter \<Rightarrow> RateLimiter" where
  "reset_bucket tid buckets = buckets(get_bucket_key tid := None)"

section \<open>EventBus (infrastructure/observability/events.py)\<close>









section \<open>Predicates on the store and sequences of calls\<close>

text \<open>The primary key of the table \<open>jobs\<close>: no two rows have the same identifier.\<close>

definition pk_unique :: "world \<Rightarrow> bool" where
  "pk_unique w = distinct (map job_id (jobs w))"

text \<open>
  The uniqueness that the idempotency lookup is meant to keep: among the rows whose
  \<open>idempotency_key\<close> is truthy, no two have the same tenant and key.
\<close>

definition idem_unique :: "world \<Rightarrow> bool" where
  "idem_unique w =
     distinct (map (\<lambda>r. (tenant_id r, idempotency_key r))
                   (filter (\<lambda>r. truthy (idempotency_key r)) (jobs w)))"

text \<open>
  A sequence of calls of \<open>check_rate_limit\<close>, each with its two clock readings, its tenant
  and its rate; the outcome of each call is dropped, the buckets are kept.
\<close>

fun check_rate_limit_calls :: "(datetime \<times> datetime \<times> string \<times> int) list \<Rightarrow> RateLimiter \<Rightarrow> RateLimiter" where
  "check_rate_limit_calls [] buckets = buckets"
| "check_rate_limit_calls ((t_new, now, tid, rate) # cs) buckets =
     check_rate_limit_calls cs (snd (check_rate_limit t_new now tid rate buckets))"

section \<open>The system as a transition relation\<close>

text \<open>
  One step of the system is one call of an entry point, with any arguments and any
  readings of the clock and of \<open>uuid4()\<close>: a submission through the route, a lease or an
  acknowledgement through the queue, the release of a lease, the processing of a job by a
  worker, or one iteration of a worker. The retry bump and the move to the dead-letter
  queue are steps of the system as \<open>process_job\<close> performs them.
\<close>

inductive step :: "world \<Rightarrow> world \<Rightarrow> bool" where
  submit: "create_job new_id now new_trace user p key mr w = (res, w') \<Longrightarrow> step w w'"
| lease: "acquire_lease t_exp t_where t_start jid ttl w = (ok, w') \<Longrightarrow> step w w'"
| acknowledge: "ack now jid success msg w = w' \<Longrightarrow> step w w'"
| release: "release_lease jid w = w' \<Longrightarrow> step w w'"
| process: "process_job wid proc t_ack did t_dlq t_failed job w = (res, w') \<Longrightarrow> step w w'"
| iterate: "run_once wid proc ttl t_deq t_exp t_lease t_start t_ack did t_dlq t_failed w = (ok, w') \<Longrightarrow> step w w'"

inductive reachable :: "world \<Rightarrow> bool" where
  initial: "reachable \<lparr> jobs = [], dlq = [], published = [] \<rparr>"
| after: "reachable w \<Longrightarrow> step w w' \<Longrightarrow> reachable w'"

text \<open>The two properties of retries: the bound on every row, and growth from one state to another.\<close>

definition retry_bounded :: "world \<Rightarrow> bool" where
  "retry_bounded w = (pk_unique w \<and> (\<forall>r\<in>set (jobs w). retry_count r \<le> max_retries r))"

definition retry_mono :: "world \<Rightarrow> world \<Rightarrow> bool" where
  "retry_mono w w' =
     (\<forall>r\<in>set (jobs w). \<exists>r'\<in>set (jobs w'). job_id r' = job_id r \<and> retry_count r \<le> retry_count r')"

text \<open>Both properties of one transition.\<close>

definition retry_ok :: "world \<Rightarrow> world \<Rightarrow> bool" where
  "retry_ok w w' = ((retry_bounded w \<longrightarrow> retry_bounded w') \<and> retry_mono w w')"

section \<open>Sample data\<close>

definition ex_job :: Job where
  "ex_job = \<lparr> job_id = ''j1'', tenant_id = ''t1'', status = PENDING, payload = ''{}'',
       idempotency_key = Some ''k1'', max_retries = 0, retry_count = 0, created_at = 100,
       started_at = None, completed_at = None, error_message = None,
       lease_expires_at = None, trace_id = ''tr1'' \<rparr>"

definition ex_world :: "Job list \<Rightarrow> world" where
  "ex_world js = \<lparr> jobs = js, dlq = [], published = [] \<rparr>"

definition ex_user :: User where
  "ex_user = \<lparr> user_id = ''t1'', api_key_hash = ''h1'', max_concurrent_jobs = 1,
       rate_limit_per_minute = 1, name = None \<rparr>"

definition ex_job2 :: Job where
  "ex_job2 = \<lparr> job_id = ''j2'', tenant_id = ''t2'', status = PENDING, payload = ''{}'',
       idempotency_key = None, max_retries = 2, retry_count = 0, created_at = 50,
       started_at = None, completed_at = None, error_message = None,
       lease_expires_at = None, trace_id = ''tr2'' \<rparr>"

definition ex_submitted :: world where
  "ex_submitted =
     \<lparr> jobs = [ex_job2], dlq = [],
       published = [(''job_submitted'',
                     [(''job_id'', FStr ''j2''), (''tenant_id'', FStr ''t2''),
                      (''status'', FStr ''pending''), (''trace_id'', FStr ''tr2'')])] \<rparr>"

section \<open>Reading and updating rows\<close>

lemma find_map_if:
  assumes "\<And>r. job_id (f r) = job_id r"
  shows "find (\<lambda>r. job_id r = jid) (map (\<lambda>r. if c r then f r else r) xs)
         = map_option (\<lambda>r. if c r then f r else r) (find (\<lambda>r. job_id r = jid) xs)"
  using assms by (induction xs) auto

lemma get_by_id_sql_update:
  assumes "\<And>r. job_id (f r) = job_id r"
  shows "get_by_id jid (sql_update c f w)
         = map_option (\<lambda>r. if c r then f r else r) (get_by_id jid w)"
  unfolding get_by_id_def sql_update_def using find_map_if [OF assms] by simp

lemma get_by_id_job_id: "get_by_id jid w = Some r \<Longrightarrow> job_id r = jid"
  unfolding get_by_id_def by (auto simp: find_Some_iff)

lemma job_id_update_data [simp]: "job_id (update_data now st msg r) = job_id r"
  by (simp add: update_data_def Let_def)

lemma get_by_id_other:
  assumes "\<And>r. job_id (f r) = job_id r" and "k \<noteq> jid"
  shows "get_by_id k (sql_update (\<lambda>r. job_id r = jid \<and> c r) f w) = get_by_id k w"
proof -
  have "map_option (\<lambda>r. if job_id r = jid \<and> c r then f r else r) (get_by_id k w) = get_by_id k w"
    using assms(2) by (cases "get_by_id k w") (auto dest: get_by_id_job_id)
  then show ?thesis using get_by_id_sql_update [OF assms(1)] by simp
qed

lemma get_by_id_other':
  assumes "\<And>r. job_id (f r) = job_id r" and "k \<noteq> jid"
  shows "get_by_id k (sql_update (\<lambda>r. job_id r = jid) f w) = get_by_id k w"
  using get_by_id_other [OF assms, of "\<lambda>_. True"] by simp

lemma update_status_found:
  assumes "get_by_id jid w = Some r"
  shows "update_status now jid st msg w
         = (Inr (update_data now st msg r), sql_update (\<lambda>r. job_id r = jid) (update_data now st msg) w)"
  using assms get_by_id_job_id [OF assms]
  by (simp add: update_status_def get_by_id_sql_update Let_def)

lemma snd_update_status:
  "snd (update_status now jid st msg w) = sql_update (\<lambda>r. job_id r = jid) (update_data now st msg) w"
  by (simp add: update_status_def Let_def split: option.splits)

lemma sql_update_absorb:
  assumes "\<And>r. c (g r) = c r" and "\<And>r. f (g r) = f r"
  shows "sql_update c f (sql_update c g w) = sql_update c f w"
  using assms by (simp add: sql_update_def comp_def)

lemma update_data_absorb:
  "update_data t2 st msg (update_data t1 st msg r) = update_data t2 st msg r"
  by (cases st) (simp_all add: update_data_def Let_def)

lemma ack_absorb: "ack t2 jid success msg (ack t1 jid success msg w) = ack t2 jid success msg w"
  by (simp add: ack_def snd_update_status sql_update_absorb update_data_absorb)

section \<open>Retry bump\<close>

text \<open>
  C5, as the code has it. \<open>increment_retry\<close> on a stored job returns the job with
  \<open>retry_count\<close> one higher, status \<open>PENDING\<close>, and \<open>lease_expires_at\<close>, \<open>started_at\<close> and
  \<open>error_message\<close> set to \<open>NULL\<close>; every other attribute of the job, \<open>created_at\<close> and
  \<open>completed_at\<close> among them, keeps its value, and so do every other job, the archive and
  the events.
\<close>

theorem increment_retry_effect:
  assumes "get_by_id jid w = Some r"
  shows "fst (increment_retry jid w)
           = Inr (r\<lparr>retry_count := retry_count r + 1, status := PENDING,
                    lease_expires_at := None, started_at := None, error_message := None\<rparr>)
       \<and> get_by_id jid (snd (increment_retry jid w))
           = Some (r\<lparr>retry_count := retry_count r + 1, status := PENDING,
                     lease_expires_at := None, started_at := None, error_message := None\<rparr>)
       \<and> (\<forall>k. k \<noteq> jid \<longrightarrow> get_by_id k (snd (increment_retry jid w)) = get_by_id k w)
       \<and> dlq (snd (increment_retry jid w)) = dlq w
       \<and> published (snd (increment_retry jid w)) = published w"
proof -
  let ?f = "\<lambda>r. r\<lparr>retry_count := retry_count r + 1, status := PENDING,
                   lease_expires_at := None, started_at := None, error_message := None\<rparr>"
  let ?w' = "sql_update (\<lambda>r. job_id r = jid) ?f w"
  have id: "job_id r = jid" using assms by (rule get_by_id_job_id)
  have g: "get_by_id jid ?w' = Some (?f r)"
    using assms id by (simp add: get_by_id_sql_update)
  have r: "increment_retry jid w = (Inr (?f r), ?w')"
    using g by (simp add: increment_retry_def)
  have o: "\<forall>k. k \<noteq> jid \<longrightarrow> get_by_id k ?w' = get_by_id k w"
    by (simp add: get_by_id_other')
  have d: "dlq ?w' = dlq w" "published ?w' = published w" by (simp_all add: sql_update_def)
  show ?thesis using g o d unfolding r by simp
qed

text \<open>
  Witness for C5: a job that failed at time 130 is bumped; it comes back \<open>PENDING\<close> with
  one retry and with its \<open>completed_at\<close>.
\<close>

theorem increment_retry_effect_witness:
  "get_by_id ''j1'' (ex_world [ex_job\<lparr>status := FAILED, completed_at := Some 130\<rparr>])
     = Some (ex_job\<lparr>status := FAILED, completed_at := Some 130\<rparr>)
   \<and> fst (increment_retry ''j1'' (ex_world [ex_job\<lparr>status := FAILED, completed_at := Some 130\<rparr>]))
     = Inr (ex_job\<lparr>status := PENDING, completed_at := Some 130, retry_count := 1\<rparr>)"
proof -
  have h: "get_by_id ''j1'' (ex_world [ex_job\<lparr>status := FAILED, completed_at := Some 130\<rparr>])
     = Some (ex_job\<lparr>status := FAILED, completed_at := Some 130\<rparr>)"
    by (simp add: get_by_id_def ex_world_def ex_job_def)
  show ?thesis using h increment_retry_effect [OF h] by (simp add: ex_job_def)
qed

text \<open>
  Counterexample to C5 as stated: the bump does not clear \<open>completed_at\<close>. The job that
  failed at time 130 still carries that time after \<open>increment_retry\<close>.
\<close>

theorem increment_retry_keeps_completed_at:
  "map_sum id completed_at
     (fst (increment_retry ''j1'' (ex_world [ex_job\<lparr>status := FAILED, completed_at := Some 130\<rparr>])))
   = Inr (Some 130)"
  by (simp add: increment_retry_def sql_update_def get_by_id_def ex_world_def ex_job_def)

section \<open>Acknowledgement\<close>

text \<open>
  C7, as the code has it. On a stored job, \<open>ack\<close> with success sets the status to
  \<open>COMPLETED\<close> and \<open>completed_at\<close> to the time of the call; with failure it sets the status
  to \<open>FAILED\<close> and \<open>completed_at\<close> likewise, and stores the error message when the message
  is truthy, leaving \<open>error_message\<close> as it was when the message is absent or empty. No
  other job changes. A second call with the same outcome and message leaves the state that
  this second call alone would have produced.
\<close>

theorem acknowledge_effect:
  assumes "get_by_id jid w = Some r"
  shows "get_by_id jid (ack now jid True msg w)
           = Some (r\<lparr>status := COMPLETED, completed_at := Some now\<rparr>)
       \<and> (truthy msg \<longrightarrow> get_by_id jid (ack now jid False msg w)
           = Some (r\<lparr>status := FAILED, error_message := msg, completed_at := Some now\<rparr>))
       \<and> (\<not> truthy msg \<longrightarrow> get_by_id jid (ack now jid False msg w)
           = Some (r\<lparr>status := FAILED, completed_at := Some now\<rparr>))
       \<and> (\<forall>k. k \<noteq> jid \<longrightarrow> get_by_id k (ack now jid success msg w) = get_by_id k w)
       \<and> ack t2 jid success msg (ack now jid success msg w) = ack t2 jid success msg w"
proof -
  have g: "get_by_id jid (snd (update_status now jid st m w)) = Some (update_data now st m r)" for st m
    using assms get_by_id_job_id [OF assms]
    by (simp add: snd_update_status get_by_id_sql_update)
  have o: "\<forall>k. k \<noteq> jid \<longrightarrow> get_by_id k (ack now jid success msg w) = get_by_id k w"
    by (simp add: ack_def snd_update_status get_by_id_other')
  show ?thesis using g o ack_absorb
    by (simp add: ack_def update_data_def)
qed

text \<open>
  Witness for C7: a running job is acknowledged as failed with the message \<open>boom\<close> at time
  130.
\<close>

theorem acknowledge_effect_witness:
  "get_by_id ''j1'' (ex_world [ex_job\<lparr>status := RUNNING\<rparr>]) = Some (ex_job\<lparr>status := RUNNING\<rparr>)
   \<and> truthy (Some ''boom'')
   \<and> get_by_id ''j1'' (ack 130 ''j1'' False (Some ''boom'') (ex_world [ex_job\<lparr>status := RUNNING\<rparr>]))
       = Some (ex_job\<lparr>status := FAILED, error_message := Some ''boom'', completed_at := Some 130\<rparr>)"
proof -
  have h: "get_by_id ''j1'' (ex_world [ex_job\<lparr>status := RUNNING\<rparr>]) = Some (ex_job\<lparr>status := RUNNING\<rparr>)"
    by (simp add: get_by_id_def ex_world_def ex_job_def)
  show ?thesis using h acknowledge_effect [OF h, of 130 "Some ''boom''"] by (simp add: ex_job_def)
qed

text \<open>
  Counterexample to C7 as stated: acknowledged as failed with the empty message, the job
  is \<open>FAILED\<close> and its \<open>error_message\<close> is still \<open>NULL\<close>, not the message given.
\<close>

theorem acknowledge_empty_message:
  "map (\<lambda>r. (status r, error_message r))
     (jobs (ack 130 ''j1'' False (Some '''') (ex_world [ex_job\<lparr>status := RUNNING\<rparr>])))
   = [(FAILED, None)]"
  by (simp add: ack_def update_status_def update_data_def sql_update_def get_by_id_def
        ex_world_def ex_job_def)

section \<open>Rate limiting\<close>

lemma get_bucket_key_inj [simp]: "get_bucket_key a = get_bucket_key b \<longleftrightarrow> a = b"
  by (simp add: get_bucket_key_def)

lemma refill_fields:
  "capacity (refill now b) = capacity b" "refill_rate (refill now b) = refill_rate b"
  "last_refill (refill now b) = now"
  "tokens (refill now b) = min (of_int (capacity b)) (tokens b + (now - last_refill b) * refill_rate b)"
  by (simp_all add: refill_def Let_def)

lemma consume_fields:
  "capacity (snd (consume now n b)) = capacity b"
  "refill_rate (snd (consume now n b)) = refill_rate b"
  by (simp_all add: consume_def refill_fields Let_def)


lemma check_rate_limit_bucket:
  "snd (check_rate_limit t_new now tid rate buckets) (get_bucket_key tid)
     = Some (snd (consume now 1 (fst (get_or_create_bucket t_new tid rate buckets))))"
  by (simp add: check_rate_limit_def Let_def split: prod.splits)

lemma check_rate_limit_other:
  "tid' \<noteq> tid \<Longrightarrow>
   snd (check_rate_limit t_new now tid rate buckets) (get_bucket_key tid') = buckets (get_bucket_key tid')"
  by (auto simp: check_rate_limit_def get_or_create_bucket_def Let_def split: prod.splits option.splits)

lemma check_rate_limit_keeps:
  assumes "buckets (get_bucket_key tid) = Some b"
  shows "\<exists>b'. snd (check_rate_limit t_new now tid' rate buckets) (get_bucket_key tid) = Some b'
            \<and> capacity b' = capacity b \<and> refill_rate b' = refill_rate b"
proof (cases "tid' = tid")
  case True
  then show ?thesis using assms
    by (simp add: check_rate_limit_bucket get_or_create_bucket_def consume_fields)
next
  case False
  then show ?thesis using assms check_rate_limit_other [of tid tid'] by simp
qed

lemma check_rate_limit_calls_keep:
  assumes "buckets (get_bucket_key tid) = Some b"
  shows "\<exists>b'. check_rate_limit_calls cs buckets (get_bucket_key tid) = Some b'
            \<and> capacity b' = capacity b \<and> refill_rate b' = refill_rate b"
  using assms
proof (induction cs arbitrary: buckets b)
  case Nil
  then show ?case by simp
next
  case (Cons c cs)
  obtain t_new now tid' rate where c: "c = (t_new, now, tid', rate)" by (cases c) auto
  from check_rate_limit_keeps [where buckets=buckets and tid=tid and b=b and t_new=t_new and now=now and tid'=tid' and rate=rate] Cons.prems
  obtain b1 where b1: "snd (check_rate_limit t_new now tid' rate buckets) (get_bucket_key tid) = Some b1"
    "capacity b1 = capacity b" "refill_rate b1 = refill_rate b" by blast
  from Cons.IH [where buckets="snd (check_rate_limit t_new now tid' rate buckets)" and b=b1] b1 show ?case by (simp add: c)
qed



text \<open>
  C10. When a tenant has no bucket, its first call of \<open>check_rate_limit\<close> creates one whose
  capacity and refill rate come from the rate of that call; after any further calls, for
  this or any other tenant and with any rates, the tenant's bucket still has that capacity
  and that refill rate.
\<close>

theorem bucket_fixed_by_first_call:
  assumes "buckets (get_bucket_key tid) = None"
  shows "map_option (\<lambda>b. (capacity b, refill_rate b))
           (check_rate_limit_calls cs (snd (check_rate_limit t_new now tid rate buckets)) (get_bucket_key tid))
         = Some (rate, of_int rate / 60)"
proof -
  let ?b1 = "snd (consume now 1 (fst (get_or_create_bucket t_new tid rate buckets)))"
  have 1: "snd (check_rate_limit t_new now tid rate buckets) (get_bucket_key tid) = Some ?b1"
    by (rule check_rate_limit_bucket)
  have 2: "capacity ?b1 = rate" "refill_rate ?b1 = of_int rate / 60"
    using assms by (simp_all add: get_or_create_bucket_def TokenBucket_init_def Let_def consume_fields)
  from check_rate_limit_calls_keep [where buckets="snd (check_rate_limit t_new now tid rate buckets)" and tid=tid and b="?b1" and cs=cs] 1 2 show ?thesis by auto
qed

text \<open>
  Witness for C10: the first call passes the rate 1, a later call passes the rate 100; the
  bucket keeps capacity 1 and refill rate 1/60.
\<close>

theorem bucket_fixed_by_first_call_witness:
  "Map.empty (get_bucket_key ''t1'') = None
   \<and> map_option (\<lambda>b. (capacity b, refill_rate b))
        (check_rate_limit_calls [(70, 70, ''t1'', 100)]
           (snd (check_rate_limit 0 0 ''t1'' 1 Map.empty)) (get_bucket_key ''t1''))
       = Some (1, 1 / 60)"
  using bucket_fixed_by_first_call [where buckets=Map.empty and tid="''t1''" and t_new=0 and now=0
      and rate=1 and cs="[(70, 70, ''t1'', 100)]"]
  by simp

section \<open>Event bus\<close>




section \<open>Submission\<close>

lemma count_running_append_pending:
  "status r \<noteq> RUNNING \<Longrightarrow> count_running_jobs tid (w\<lparr>jobs := jobs w @ [r]\<rparr>) = count_running_jobs tid w"
  by (simp add: count_running_jobs_def count_by_status_def)

lemma create_new_Job:
  "create (new_Job nid now ntr tid p key mr) w =
     (if nid \<in> job_id ` set (jobs w) then (Inl IntegrityError, w)
      else (Inr (new_Job nid now ntr tid p key mr), w\<lparr>jobs := jobs w @ [new_Job nid now ntr tid p key mr]\<rparr>))"
  by (simp add: create_def new_Job_def Let_def)

lemma lookup_None_iff:
  "get_by_idempotency_key tid key w = Inr None
   \<longleftrightarrow> filter (\<lambda>r. tenant_id r = tid \<and> idempotency_key r = Some key) (jobs w) = []"
  by (simp add: get_by_idempotency_key_def split: list.splits)

lemma submit_job_cases:
  "submit_job nid now ntr user p key mr w = (res, w') \<Longrightarrow>
     w' = w \<or>
     (w' = w\<lparr>jobs := jobs w @ [new_Job nid now ntr (user_id user) p key mr]\<rparr>
      \<and> res = Inr (new_Job nid now ntr (user_id user) p key mr)
      \<and> check_concurrent_jobs_limit user w = Inr ()
      \<and> (truthy key \<longrightarrow> get_by_idempotency_key (user_id user) (the key) w = Inr None))"
  by (cases key)
     (auto simp: submit_job_def enqueue_def create_new_Job check_idempotency_def Let_def
           split: sum.splits option.splits if_splits prod.splits)


lemma lookup_after_append:
  "get_by_idempotency_key tid k w = Inr None \<Longrightarrow> tenant_id r = tid \<Longrightarrow> idempotency_key r = Some k
   \<Longrightarrow> get_by_idempotency_key tid k (w\<lparr>jobs := jobs w @ [r]\<rparr>) = Inr (Some r)"
  by (simp add: get_by_idempotency_key_def split: list.splits)

lemma submit_job_quota:
  "max_concurrent_jobs user \<le> count_running_jobs (user_id user) w \<Longrightarrow>
   submit_job nid now ntr user p key mr w
     = (Inl (QuotaExceededError (count_running_jobs (user_id user) w) (max_concurrent_jobs user)), w)"
  by (simp add: submit_job_def check_concurrent_jobs_limit_def Let_def)

lemma submit_job_existing:
  assumes "count_running_jobs (user_id user) w < max_concurrent_jobs user" and "k \<noteq> []"
    and "get_by_idempotency_key (user_id user) k w = Inr (Some j)"
  shows "submit_job nid now ntr user p (Some k) mr w = (Inr j, w)"
  using assms by (simp add: submit_job_def check_concurrent_jobs_limit_def check_idempotency_def Let_def)

lemma submit_job_twice:
  assumes k: "k \<noteq> []" and first: "submit_job nid now ntr user p (Some k) mr w = (Inr j, w1)"
  shows "submit_job nid' now' ntr' user p' (Some k) mr' w1 = (Inr j, w1)"
proof -
  have q: "count_running_jobs (user_id user) w < max_concurrent_jobs user"
    using first by (auto simp: submit_job_def check_concurrent_jobs_limit_def Let_def split: if_splits)
  show ?thesis
  proof (cases "get_by_idempotency_key (user_id user) k w")
    case (Inl e)
    then show ?thesis using first k q
      by (simp add: submit_job_def check_concurrent_jobs_limit_def check_idempotency_def Let_def)
  next
    case (Inr found)
    show ?thesis
    proof (cases found)
      case (Some e)
      then have "j = e" "w1 = w" using first submit_job_existing [OF q k, of e] Inr by simp_all
      then show ?thesis using submit_job_existing [OF q k, of e] Inr Some by simp
    next
      case None
      let ?job = "new_Job nid now ntr (user_id user) p (Some k) mr"
      have e: "submit_job nid now ntr user p (Some k) mr w = 
                (case enqueue ?job w of (Inl e, w') \<Rightarrow> (Inl e, w') | (Inr _, w') \<Rightarrow> (Inr ?job, w'))"
        using q k Inr None
        by (simp add: submit_job_def check_concurrent_jobs_limit_def check_idempotency_def Let_def)
      have jw: "j = ?job" "w1 = w\<lparr>jobs := jobs w @ [?job]\<rparr>"
        using first unfolding e by (auto simp: enqueue_def create_new_Job split: if_splits)
      have q1: "count_running_jobs (user_id user) w1 < max_concurrent_jobs user"
        using q by (simp add: jw count_running_append_pending new_Job_def)
      have l1: "get_by_idempotency_key (user_id user) k w1 = Inr (Some j)"
        unfolding jw using Inr None by (intro lookup_after_append) (simp_all add: new_Job_def)
      show ?thesis using submit_job_existing [OF q1 k l1] by simp
    qed
  qed
qed

text \<open>
  C2, as the code has it. \<open>submit_job\<close> checks the quota first: when the tenant's running
  jobs have reached \<open>max_concurrent_jobs\<close>, it raises \<open>QuotaExceededError\<close> and leaves the
  store as it is, whatever the key. When the quota check passes and a non-empty
  idempotency key is supplied for which the tenant has a job, that job is returned,
  whatever its status, and nothing is stored. When a submission with a non-empty key has
  returned a job, a second submission with the same key returns the same job and stores
  nothing, whatever its payload and \<open>max_retries\<close>.
\<close>

theorem submit_job_quota_then_idempotency:
  "(max_concurrent_jobs user \<le> count_running_jobs (user_id user) w \<longrightarrow>
      submit_job nid now ntr user p key mr w
        = (Inl (QuotaExceededError (count_running_jobs (user_id user) w) (max_concurrent_jobs user)), w))
   \<and> (count_running_jobs (user_id user) w < max_concurrent_jobs user \<and> k \<noteq> [] \<and>
      get_by_idempotency_key (user_id user) k w = Inr (Some j) \<longrightarrow>
        submit_job nid now ntr user p (Some k) mr w = (Inr j, w))
   \<and> (k \<noteq> [] \<and> submit_job nid now ntr user p (Some k) mr w = (Inr j1, w1) \<longrightarrow>
        submit_job nid' now' ntr' user p' (Some k) mr' w1 = (Inr j1, w1))"
proof (intro conjI impI)
  assume "max_concurrent_jobs user \<le> count_running_jobs (user_id user) w"
  then show "submit_job nid now ntr user p key mr w
        = (Inl (QuotaExceededError (count_running_jobs (user_id user) w) (max_concurrent_jobs user)), w)"
    by (rule submit_job_quota)
next
  assume "count_running_jobs (user_id user) w < max_concurrent_jobs user \<and> k \<noteq> [] \<and>
      get_by_idempotency_key (user_id user) k w = Inr (Some j)"
  then show "submit_job nid now ntr user p (Some k) mr w = (Inr j, w)"
    by (simp add: submit_job_existing)
next
  assume "k \<noteq> [] \<and> submit_job nid now ntr user p (Some k) mr w = (Inr j1, w1)"
  then show "submit_job nid' now' ntr' user p' (Some k) mr' w1 = (Inr j1, w1)"
    using submit_job_twice by blast
qed

text \<open>
  Witness for C2: a tenant at its quota is refused; a tenant below its quota gets its
  completed job back; a job submitted into an empty store is returned again by a second
  submission with another payload.
\<close>

theorem submit_job_quota_then_idempotency_witness:
  "submit_job ''j2'' 200 ''tr2'' ex_user ''{}'' (Some ''k1'') 3 (ex_world [ex_job\<lparr>status := RUNNING\<rparr>])
     = (Inl (QuotaExceededError 1 1), ex_world [ex_job\<lparr>status := RUNNING\<rparr>])
   \<and> submit_job ''j2'' 200 ''tr2'' ex_user ''{}'' (Some ''k1'') 3 (ex_world [ex_job\<lparr>status := COMPLETED\<rparr>])
     = (Inr (ex_job\<lparr>status := COMPLETED\<rparr>), ex_world [ex_job\<lparr>status := COMPLETED\<rparr>])
   \<and> submit_job ''j1'' 100 ''tr1'' ex_user ''{}'' (Some ''k1'') 0 (ex_world []) = (Inr ex_job, ex_world [ex_job])
   \<and> submit_job ''j2'' 200 ''tr2'' ex_user ''other'' (Some ''k1'') 3 (ex_world [ex_job])
     = (Inr ex_job, ex_world [ex_job])"
proof -
  have q: "max_concurrent_jobs ex_user \<le> count_running_jobs (user_id ex_user) (ex_world [ex_job\<lparr>status := RUNNING\<rparr>])"
    "count_running_jobs (user_id ex_user) (ex_world [ex_job\<lparr>status := RUNNING\<rparr>]) = 1"
    "max_concurrent_jobs ex_user = 1"
    by (simp_all add: ex_user_def ex_world_def ex_job_def count_running_jobs_def count_by_status_def)
  have e: "count_running_jobs (user_id ex_user) (ex_world [ex_job\<lparr>status := COMPLETED\<rparr>]) < max_concurrent_jobs ex_user
      \<and> ''k1'' \<noteq> []
      \<and> get_by_idempotency_key (user_id ex_user) ''k1'' (ex_world [ex_job\<lparr>status := COMPLETED\<rparr>])
          = Inr (Some (ex_job\<lparr>status := COMPLETED\<rparr>))"
    by (simp add: ex_user_def ex_world_def ex_job_def count_running_jobs_def count_by_status_def
          get_by_idempotency_key_def)
  have f: "submit_job ''j1'' 100 ''tr1'' ex_user ''{}'' (Some ''k1'') 0 (ex_world []) = (Inr ex_job, ex_world [ex_job])"
    by (simp add: submit_job_def check_concurrent_jobs_limit_def count_running_jobs_def
          count_by_status_def check_idempotency_def get_by_idempotency_key_def enqueue_def
          create_def new_Job_def ex_user_def ex_world_def ex_job_def Let_def)
  have 1: "submit_job ''j2'' 200 ''tr2'' ex_user ''{}'' (Some ''k1'') 3 (ex_world [ex_job\<lparr>status := RUNNING\<rparr>])
     = (Inl (QuotaExceededError 1 1), ex_world [ex_job\<lparr>status := RUNNING\<rparr>])"
    using submit_job_quota_then_idempotency [where user=ex_user and w="ex_world [ex_job\<lparr>status := RUNNING\<rparr>]"
        and nid="''j2''" and now=200 and ntr="''tr2''" and p="''{}''" and key="Some ''k1''" and mr=3,
        THEN conjunct1, THEN mp, OF q(1)]
    by (simp only: q(2,3))
  have 2: "submit_job ''j2'' 200 ''tr2'' ex_user ''{}'' (Some ''k1'') 3 (ex_world [ex_job\<lparr>status := COMPLETED\<rparr>])
     = (Inr (ex_job\<lparr>status := COMPLETED\<rparr>), ex_world [ex_job\<lparr>status := COMPLETED\<rparr>])"
    by (rule submit_job_quota_then_idempotency [where user=ex_user and w="ex_world [ex_job\<lparr>status := COMPLETED\<rparr>]"
        and nid="''j2''" and now=200 and ntr="''tr2''" and p="''{}''" and k="''k1''" and mr=3
        and j="ex_job\<lparr>status := COMPLETED\<rparr>", THEN conjunct2, THEN conjunct1, THEN mp, OF e])
  have g: "''k1'' \<noteq> [] \<and> submit_job ''j1'' 100 ''tr1'' ex_user ''{}'' (Some ''k1'') 0 (ex_world []) = (Inr ex_job, ex_world [ex_job])"
    using f by simp
  have 3: "submit_job ''j2'' 200 ''tr2'' ex_user ''other'' (Some ''k1'') 3 (ex_world [ex_job])
     = (Inr ex_job, ex_world [ex_job])"
    by (rule submit_job_quota_then_idempotency [where user=ex_user and w="ex_world []"
        and nid="''j1''" and now=100 and ntr="''tr1''" and p="''{}''" and k="''k1''" and mr=0
        and ?j1.0=ex_job and ?w1.0="ex_world [ex_job]"
        and nid'="''j2''" and now'=200 and ntr'="''tr2''" and p'="''other''" and mr'=3,
        THEN conjunct2, THEN conjunct2, THEN mp, OF g])
  show ?thesis using 1 2 f 3 by (intro conjI)
qed

text \<open>
  Counterexample to C2 as stated: the tenant has one running job, submitted with the key
  \<open>k1\<close>, and a quota of one. A submission with the key \<open>k1\<close> does not return that job: it
  raises \<open>QuotaExceededError\<close>.
\<close>

theorem submit_job_quota_blocks_existing_key:
  "get_by_idempotency_key ''t1'' ''k1'' (ex_world [ex_job\<lparr>status := RUNNING\<rparr>])
     = Inr (Some (ex_job\<lparr>status := RUNNING\<rparr>))
   \<and> fst (submit_job ''j2'' 200 ''tr2'' ex_user ''{}'' (Some ''k1'') 3 (ex_world [ex_job\<lparr>status := RUNNING\<rparr>]))
     = Inl (QuotaExceededError 1 1)"
  by (simp add: submit_job_def check_concurrent_jobs_limit_def count_running_jobs_def
        count_by_status_def get_by_idempotency_key_def ex_user_def ex_world_def ex_job_def Let_def)

lemma idem_unique_append:
  assumes "idem_unique w"
    and "truthy (idempotency_key r) \<longrightarrow>
         filter (\<lambda>x. tenant_id x = tenant_id r \<and> idempotency_key x = idempotency_key r) (jobs w) = []"
  shows "idem_unique (w\<lparr>jobs := jobs w @ [r]\<rparr>)"
  using assms by (auto simp: idem_unique_def filter_empty_conv)

lemma submit_job_idem_unique:
  assumes "idem_unique w"
  shows "idem_unique (snd (submit_job nid now ntr user p key mr w))"
proof -
  obtain res w' where r: "submit_job nid now ntr user p key mr w = (res, w')" by force
  from submit_job_cases [OF r] show ?thesis
  proof
    assume "w' = w" then show ?thesis using assms r by simp
  next
    assume a: "w' = w\<lparr>jobs := jobs w @ [new_Job nid now ntr (user_id user) p key mr]\<rparr>
      \<and> res = Inr (new_Job nid now ntr (user_id user) p key mr)
      \<and> check_concurrent_jobs_limit user w = Inr ()
      \<and> (truthy key \<longrightarrow> get_by_idempotency_key (user_id user) (the key) w = Inr None)"
    have "idem_unique (w\<lparr>jobs := jobs w @ [new_Job nid now ntr (user_id user) p key mr]\<rparr>)"
      using assms a by (intro idem_unique_append; cases key) (auto simp: new_Job_def lookup_None_iff)
    then show ?thesis using a r by simp
  qed
qed

text \<open>
  C3, as the code has it. \<open>create\<close> stores the job it is given, with the status the job
  carries, whenever its identifier is new: it does not look at the tenant or at the
  idempotency key. \<open>submit_job\<close> stores at most one job, built by \<open>Job.__init__\<close> and
  therefore \<open>PENDING\<close>, and it keeps \<open>(tenant_id, idempotency_key)\<close> unique among the jobs
  with a non-empty key.
\<close>

theorem create_accepts_duplicate_key:
  "(job_id job \<notin> job_id ` set (jobs w) \<longrightarrow>
      create job w
        = (Inr (job\<lparr>started_at := None, completed_at := None, error_message := None,
                    lease_expires_at := None\<rparr>),
           w\<lparr>jobs := jobs w @ [job\<lparr>started_at := None, completed_at := None,
                                    error_message := None, lease_expires_at := None\<rparr>]\<rparr>))
   \<and> (jobs (snd (submit_job nid now ntr user p key mr w)) = jobs w
      \<or> jobs (snd (submit_job nid now ntr user p key mr w))
           = jobs w @ [new_Job nid now ntr (user_id user) p key mr])
   \<and> status (new_Job nid now ntr (user_id user) p key mr) = PENDING
   \<and> (idem_unique w \<longrightarrow> idem_unique (snd (submit_job nid now ntr user p key mr w)))"
proof -
  have c: "job_id job \<notin> job_id ` set (jobs w) \<longrightarrow>
      create job w
        = (Inr (job\<lparr>started_at := None, completed_at := None, error_message := None,
                    lease_expires_at := None\<rparr>),
           w\<lparr>jobs := jobs w @ [job\<lparr>started_at := None, completed_at := None,
                                    error_message := None, lease_expires_at := None\<rparr>]\<rparr>)"
    by (cases job) (simp add: create_def Let_def)
  obtain res w' where r: "submit_job nid now ntr user p key mr w = (res, w')" by force
  have s: "jobs (snd (submit_job nid now ntr user p key mr w)) = jobs w
      \<or> jobs (snd (submit_job nid now ntr user p key mr w))
           = jobs w @ [new_Job nid now ntr (user_id user) p key mr]"
    using submit_job_cases [OF r] r by auto
  show ?thesis using c s submit_job_idem_unique by (simp add: new_Job_def)
qed

text \<open>
  Witness for C3: a second job is stored next to \<open>ex_job\<close>; a submission with the key of
  \<open>ex_job\<close> keeps the keys unique.
\<close>

theorem create_accepts_duplicate_key_witness:
  "''j2'' \<notin> job_id ` set (jobs (ex_world [ex_job]))
   \<and> fst (create (new_Job ''j2'' 200 ''tr2'' ''t1'' ''{}'' (Some ''k1'') 3) (ex_world [ex_job]))
       = Inr (new_Job ''j2'' 200 ''tr2'' ''t1'' ''{}'' (Some ''k1'') 3)
   \<and> idem_unique (ex_world [ex_job])
   \<and> idem_unique (snd (submit_job ''j2'' 200 ''tr2'' ex_user ''{}'' (Some ''k1'') 3 (ex_world [ex_job])))"
proof -
  have h: "job_id (new_Job ''j2'' 200 ''tr2'' ''t1'' ''{}'' (Some ''k1'') 3) \<notin> job_id ` set (jobs (ex_world [ex_job]))"
    by (simp add: new_Job_def ex_world_def ex_job_def)
  have u: "idem_unique (ex_world [ex_job])"
    by (simp add: idem_unique_def ex_world_def ex_job_def)
  show ?thesis
    using h u
      create_accepts_duplicate_key [where job="new_Job ''j2'' 200 ''tr2'' ''t1'' ''{}'' (Some ''k1'') 3"
        and w="ex_world [ex_job]" and nid="''j2''" and now=200 and ntr="''tr2''" and user=ex_user
        and p="''{}''" and key="Some ''k1''" and mr=3]
    by (simp add: new_Job_def)
qed

text \<open>
  Counterexample to C3 as stated: \<open>create\<close> of a second job with the tenant and key of a
  stored job succeeds, and the table then holds two jobs with the same tenant and key.
\<close>

theorem create_duplicate_key_inserted:
  "map (\<lambda>r. (job_id r, tenant_id r, idempotency_key r))
     (jobs (snd (create (new_Job ''j2'' 200 ''tr2'' ''t1'' ''{}'' (Some ''k1'') 3) (ex_world [ex_job]))))
     = [(''j1'', ''t1'', Some ''k1''), (''j2'', ''t1'', Some ''k1'')]
   \<and> fst (create (new_Job ''j2'' 200 ''tr2'' ''t1'' ''{}'' (Some ''k1'') 3) (ex_world [ex_job]))
     = Inr (new_Job ''j2'' 200 ''tr2'' ''t1'' ''{}'' (Some ''k1'') 3)"
  by (simp add: create_def new_Job_def ex_world_def ex_job_def Let_def)

section \<open>Dequeue and lease\<close>

lemma get_by_id_mem: "get_by_id jid w = Some r \<Longrightarrow> r \<in> set (jobs w)"
  unfolding get_by_id_def by (auto simp: find_Some_iff)

lemma pk_unique_row:
  assumes "pk_unique w" and "x \<in> set (jobs w)" and "y \<in> set (jobs w)" and "job_id x = job_id y"
  shows "x = y"
  using assms unfolding pk_unique_def by (meson distinct_map inj_onD)

lemma get_by_id_of_row:
  assumes "pk_unique w" and "r \<in> set (jobs w)"
  shows "get_by_id (job_id r) w = Some r"
proof -
  have "find (\<lambda>x. job_id x = job_id r) (jobs w) \<noteq> None"
    using assms(2) by (auto simp: find_None_iff)
  then obtain x where x: "get_by_id (job_id r) w = Some x" by (auto simp: get_by_id_def)
  then have "x = r"
    using pk_unique_row [OF assms(1) get_by_id_mem [OF x] assms(2)] get_by_id_job_id [OF x] by simp
  then show ?thesis using x by simp
qed

lemma map_job_id_update:
  "(\<And>r. job_id (f r) = job_id r) \<Longrightarrow> map job_id (map (\<lambda>r. if c r then f r else r) xs) = map job_id xs"
  by (induction xs) auto

lemma pk_unique_sql_update:
  "(\<And>r. job_id (f r) = job_id r) \<Longrightarrow> pk_unique (sql_update c f w) = pk_unique w"
  by (simp add: pk_unique_def sql_update_def map_job_id_update del: map_map)

lemma lease_available_mono: "lease_available t r \<Longrightarrow> t \<le> t' \<Longrightarrow> lease_available t' r"
  by (auto simp: lease_available_def split: option.splits)

lemma dequeue_None_iff:
  "dequeue now w = None \<longleftrightarrow> (\<forall>r\<in>set (jobs w). \<not> lease_available now r)"
proof -
  have "sort_key created_at (filter (lease_available now) (jobs w)) = []
        \<longleftrightarrow> filter (lease_available now) (jobs w) = []"
    by (metis length_0_conv length_sort)
  then show ?thesis
    by (auto simp: dequeue_def get_pending_jobs_for_dequeue_def filter_empty_conv
             split: list.splits)
qed

lemma dequeue_Some:
  assumes "dequeue now w = Some j"
  shows "j \<in> set (jobs w) \<and> lease_available now j
         \<and> (\<forall>r\<in>set (jobs w). lease_available now r \<longrightarrow> created_at j \<le> created_at r)"
proof -
  let ?xs = "sort_key created_at (filter (lease_available now) (jobs w))"
  obtain rest where s: "?xs = j # rest"
    using assms by (cases ?xs) (auto simp: dequeue_def get_pending_jobs_for_dequeue_def)
  have "j \<in> set ?xs" using s by simp
  then have m: "j \<in> set (jobs w) \<and> lease_available now j" by simp
  have "sorted (map created_at ?xs)" by (rule sorted_sort_key)
  then have "\<forall>r\<in>set ?xs. created_at j \<le> created_at r" unfolding s by auto
  then show ?thesis using m by simp
qed

lemma acquire_lease_fst:
  "fst (acquire_lease t_exp now t_start jid ttl w)
     \<longleftrightarrow> (\<exists>r\<in>set (jobs w). job_id r = jid \<and> lease_available now r)"
  by (auto simp: acquire_lease_def rowcount_def Let_def filter_empty_conv)

lemma acquire_lease_failed:
  assumes "\<not> fst (acquire_lease t_exp now t_start jid ttl w)"
  shows "snd (acquire_lease t_exp now t_start jid ttl w) = w"
proof -
  have "\<forall>r\<in>set (jobs w). \<not> (job_id r = jid \<and> lease_available now r)"
    using assms by (simp add: acquire_lease_fst)
  then have "map (\<lambda>r. if job_id r = jid \<and> lease_available now r
                       then r\<lparr>status := RUNNING, lease_expires_at := Some (t_exp + of_int ttl),
                              started_at := Some t_start\<rparr> else r) (jobs w) = jobs w"
    by (intro map_idI) auto
  then show ?thesis by (simp add: acquire_lease_def sql_update_def Let_def)
qed

lemma acquire_lease_row:
  assumes "get_by_id jid w = Some r"
  shows "get_by_id jid (snd (acquire_lease t_exp now t_start jid ttl w))
         = Some (if lease_available now r
                 then r\<lparr>status := RUNNING, lease_expires_at := Some (t_exp + of_int ttl),
                        started_at := Some t_start\<rparr> else r)"
  using assms get_by_id_job_id [OF assms]
  by (simp add: acquire_lease_def Let_def get_by_id_sql_update)

lemma acquire_lease_others:
  "k \<noteq> jid \<Longrightarrow> get_by_id k (snd (acquire_lease t_exp now t_start jid ttl w)) = get_by_id k w"
  by (simp add: acquire_lease_def Let_def get_by_id_other)

lemma acquire_lease_fst_pk:
  assumes "pk_unique w" and "get_by_id jid w = Some r"
  shows "fst (acquire_lease t_exp now t_start jid ttl w) \<longleftrightarrow> lease_available now r"
proof -
  have m: "r \<in> set (jobs w)" and i: "job_id r = jid"
    using get_by_id_mem [OF assms(2)] get_by_id_job_id [OF assms(2)] by blast+
  have u: "x = r" if "x \<in> set (jobs w)" "job_id x = jid" for x
  proof -
    have "job_id x = job_id r" using that(2) i by simp
    then show ?thesis by (rule pk_unique_row [OF assms(1) that(1) m])
  qed
  show ?thesis unfolding acquire_lease_fst
  proof
    assume "\<exists>x\<in>set (jobs w). job_id x = jid \<and> lease_available now x"
    then obtain x where "x \<in> set (jobs w)" "job_id x = jid" "lease_available now x" by blast
    then show "lease_available now r" using u by blast
  next
    assume "lease_available now r"
    then show "\<exists>x\<in>set (jobs w). job_id x = jid \<and> lease_available now x" using m i by blast
  qed
qed

lemma acquire_lease_pk:
  "pk_unique (snd (acquire_lease t_exp now t_start jid ttl w)) = pk_unique w"
  by (simp add: acquire_lease_def Let_def pk_unique_sql_update)

lemma acquire_lease_once:
  assumes "pk_unique w" and "fst (acquire_lease e1 t1 s1 jid ttl1 w)"
  shows "\<not> fst (acquire_lease e2 t2 s2 jid ttl2 (snd (acquire_lease e1 t1 s1 jid ttl1 w)))"
proof -
  obtain r where r: "r \<in> set (jobs w)" "job_id r = jid" "lease_available t1 r"
    using assms(2) by (auto simp: acquire_lease_fst)
  have g: "get_by_id jid w = Some r" using get_by_id_of_row [OF assms(1) r(1)] r(2) by simp
  let ?w' = "snd (acquire_lease e1 t1 s1 jid ttl1 w)"
  have g': "get_by_id jid ?w' = Some (r\<lparr>status := RUNNING, lease_expires_at := Some (e1 + of_int ttl1),
                        started_at := Some s1\<rparr>)"
    using acquire_lease_row [OF g, of e1 t1 s1 ttl1] r(3) by simp
  have pk: "pk_unique ?w'" using assms(1) by (simp add: acquire_lease_pk)
  show ?thesis
    using acquire_lease_fst_pk [OF pk g', of e2 t2 s2 ttl2] by (simp add: lease_available_def)
qed

lemma lm_acquire_lease_dequeued:
  assumes "pk_unique w" and "t_deq \<le> t_where" and "dequeue t_deq w = Some j"
  shows "fst (lm_acquire_lease t_exp t_where t_start ttl j w)"
    and "get_by_id (job_id j) (snd (lm_acquire_lease t_exp t_where t_start ttl j w))
           = Some (j\<lparr>status := RUNNING, lease_expires_at := Some (t_exp + of_int ttl),
                     started_at := Some t_start\<rparr>)"
proof -
  note s = dequeue_Some [OF assms(3)]
  have m: "j \<in> set (jobs w)" and av: "lease_available t_deq j" using s by blast+
  have av': "lease_available t_where j" using av assms(2) by (rule lease_available_mono)
  have g: "get_by_id (job_id j) w = Some j" using assms(1) m by (rule get_by_id_of_row)
  show "fst (lm_acquire_lease t_exp t_where t_start ttl j w)"
    unfolding lm_acquire_lease_def using acquire_lease_fst_pk [OF assms(1) g] av' by blast
  show "get_by_id (job_id j) (snd (lm_acquire_lease t_exp t_where t_start ttl j w))
           = Some (j\<lparr>status := RUNNING, lease_expires_at := Some (t_exp + of_int ttl),
                     started_at := Some t_start\<rparr>)"
    unfolding lm_acquire_lease_def using acquire_lease_row [OF g, of t_exp t_where t_start ttl] av'
    by simp
qed

lemma run_once_leased:
  assumes "dequeue t_deq w = Some j" and "fst (lm_acquire_lease t_exp t_where t_start ttl j w)"
  shows "run_once wid proc ttl t_deq t_exp t_where t_start t_ack did t_dlq t_failed w
         = (case process_job wid proc t_ack did t_dlq t_failed j
                   (snd (lm_acquire_lease t_exp t_where t_start ttl j w)) of
              (Inl e, w2) \<Rightarrow> (False, w2)
            | (Inr u, w2) \<Rightarrow> (True, w2))"
proof -
  obtain w1 where l: "lm_acquire_lease t_exp t_where t_start ttl j w = (True, w1)"
    using assms(2) by (cases "lm_acquire_lease t_exp t_where t_start ttl j w") auto
  show ?thesis using assms(1) l by (simp add: run_once_def)
qed

text \<open>
  C1 as stated does not hold. \<open>dequeue\<close> returns the row as selected, and
  \<open>acquire_lease\<close> returns a flag, so the job that the path hands on still has status
  \<open>PENDING\<close> and no \<open>started_at\<close>, while the stored row is \<open>RUNNING\<close>. Moreover the expiry is
  computed from a clock reading taken before the one that becomes \<open>started_at\<close>: with the
  readings 201, 202 and 203 and a lease of 300 seconds the stored row has
  \<open>lease_expires_at = 501\<close> and \<open>started_at = 203\<close>.
\<close>

theorem dequeue_returns_row_before_lease:
  "dequeue 200 (ex_world [ex_job, ex_job2]) = Some ex_job2
   \<and> status ex_job2 = PENDING \<and> started_at ex_job2 = None \<and> lease_expires_at ex_job2 = None
   \<and> fst (lm_acquire_lease 201 202 203 300 ex_job2 (ex_world [ex_job, ex_job2]))
   \<and> get_by_id ''j2'' (snd (lm_acquire_lease 201 202 203 300 ex_job2 (ex_world [ex_job, ex_job2])))
       = Some (ex_job2\<lparr>status := RUNNING, lease_expires_at := Some 501, started_at := Some 203\<rparr>)
   \<and> get_by_id ''j2'' (snd (lm_acquire_lease 201 202 203 300 ex_job2 (ex_world [ex_job, ex_job2])))
       \<noteq> dequeue 200 (ex_world [ex_job, ex_job2])
   \<and> (501::rat) \<noteq> 203 + 300"
  by (simp add: dequeue_def get_pending_jobs_for_dequeue_def lease_available_def
        lm_acquire_lease_def acquire_lease_def rowcount_def sql_update_def get_by_id_def
        ex_world_def ex_job_def ex_job2_def Let_def)

text \<open>
  C1, amended. The path is the first half of \<open>run_once\<close>: \<open>dequeue\<close> at the instant
  \<open>t_deq\<close>, then \<open>LeaseManager.acquire_lease\<close> on the job it returned, whose three clock
  readings are \<open>t_exp\<close> (for the expiry), \<open>t_where\<close> (in the \<open>WHERE\<close> clause, not before
  \<open>t_deq\<close>) and \<open>t_start\<close>. On a table with its primary key: \<open>dequeue\<close> returns nothing
  exactly when no job is \<open>PENDING\<close> with a lease that is null or earlier than \<open>t_deq\<close>, and
  \<open>run_once\<close> then returns \<open>False\<close> and changes nothing; otherwise it returns such a job of
  the table, as stored (hence still \<open>PENDING\<close>), and no such job is older. The lease on it
  succeeds and rewrites exactly that row to \<open>RUNNING\<close> with \<open>started_at = t_start\<close> and
  \<open>lease_expires_at = t_exp + ttl\<close>; every other job, the set of rows and the archive stay
  as they were; and \<open>run_once\<close> goes on to process the job as selected, before the update, in
  the updated state. In general \<open>acquire_lease\<close> on a stored job succeeds exactly when the
  job is \<open>PENDING\<close> with a lease that is null or earlier than the reading of the \<open>WHERE\<close>
  clause; a failed attempt leaves the state unchanged; and of two attempts on the same
  job, one after the other, at most the first succeeds.
\<close>

theorem dequeue_and_lease:
  assumes "pk_unique w" and "t_deq \<le> t_where"
  shows "(dequeue t_deq w = None \<longleftrightarrow> (\<forall>r\<in>set (jobs w). \<not> lease_available t_deq r))
   \<and> (dequeue t_deq w = None \<longrightarrow>
        run_once wid proc ttl t_deq t_exp t_where t_start t_ack did t_dlq t_failed w = (False, w))
   \<and> (dequeue t_deq w = Some j \<longrightarrow>
        j \<in> set (jobs w) \<and> lease_available t_deq j \<and> status j = PENDING
        \<and> (\<forall>r\<in>set (jobs w). lease_available t_deq r \<longrightarrow> created_at j \<le> created_at r)
        \<and> fst (lm_acquire_lease t_exp t_where t_start ttl j w)
        \<and> get_by_id (job_id j) (snd (lm_acquire_lease t_exp t_where t_start ttl j w))
            = Some (j\<lparr>status := RUNNING, lease_expires_at := Some (t_exp + of_int ttl),
                      started_at := Some t_start\<rparr>)
        \<and> (\<forall>k. k \<noteq> job_id j \<longrightarrow>
              get_by_id k (snd (lm_acquire_lease t_exp t_where t_start ttl j w)) = get_by_id k w)
        \<and> map job_id (jobs (snd (lm_acquire_lease t_exp t_where t_start ttl j w)))
            = map job_id (jobs w)
        \<and> dlq (snd (lm_acquire_lease t_exp t_where t_start ttl j w)) = dlq w
        \<and> run_once wid proc ttl t_deq t_exp t_where t_start t_ack did t_dlq t_failed w
            = (case process_job wid proc t_ack did t_dlq t_failed j
                      (snd (lm_acquire_lease t_exp t_where t_start ttl j w)) of
                 (Inl e, w2) \<Rightarrow> (False, w2)
               | (Inr u, w2) \<Rightarrow> (True, w2)))
   \<and> (get_by_id jid w = Some r \<longrightarrow>
        (fst (acquire_lease e t s jid ttl' w) \<longleftrightarrow> lease_available t r))
   \<and> (\<not> fst (acquire_lease e t s jid ttl' w) \<longrightarrow> snd (acquire_lease e t s jid ttl' w) = w)
   \<and> \<not> (fst (acquire_lease e1 t1 s1 jid ttl1 w)
          \<and> fst (acquire_lease e2 t2 s2 jid ttl2 (snd (acquire_lease e1 t1 s1 jid ttl1 w))))"
proof -
  let ?l = "lm_acquire_lease t_exp t_where t_start ttl j w"
  have a: "dequeue t_deq w = None \<longleftrightarrow> (\<forall>r\<in>set (jobs w). \<not> lease_available t_deq r)"
    by (rule dequeue_None_iff)
  have b: "dequeue t_deq w = None \<longrightarrow>
        run_once wid proc ttl t_deq t_exp t_where t_start t_ack did t_dlq t_failed w = (False, w)"
    by (simp add: run_once_def)
  have c: "j \<in> set (jobs w) \<and> lease_available t_deq j \<and> status j = PENDING
        \<and> (\<forall>r\<in>set (jobs w). lease_available t_deq r \<longrightarrow> created_at j \<le> created_at r)
        \<and> fst ?l
        \<and> get_by_id (job_id j) (snd ?l)
            = Some (j\<lparr>status := RUNNING, lease_expires_at := Some (t_exp + of_int ttl),
                      started_at := Some t_start\<rparr>)
        \<and> (\<forall>k. k \<noteq> job_id j \<longrightarrow> get_by_id k (snd ?l) = get_by_id k w)
        \<and> map job_id (jobs (snd ?l)) = map job_id (jobs w)
        \<and> dlq (snd ?l) = dlq w
        \<and> run_once wid proc ttl t_deq t_exp t_where t_start t_ack did t_dlq t_failed w
            = (case process_job wid proc t_ack did t_dlq t_failed j (snd ?l) of
                 (Inl e, w2) \<Rightarrow> (False, w2)
               | (Inr u, w2) \<Rightarrow> (True, w2))"
    if d: "dequeue t_deq w = Some j"
  proof -
    note s = dequeue_Some [OF d]
    have p: "status j = PENDING" using s by (simp add: lease_available_def)
    have f: "fst ?l" by (rule lm_acquire_lease_dequeued(1) [OF assms d])
    have r: "get_by_id (job_id j) (snd ?l)
            = Some (j\<lparr>status := RUNNING, lease_expires_at := Some (t_exp + of_int ttl),
                      started_at := Some t_start\<rparr>)"
      by (rule lm_acquire_lease_dequeued(2) [OF assms d])
    have o: "\<forall>k. k \<noteq> job_id j \<longrightarrow> get_by_id k (snd ?l) = get_by_id k w"
      unfolding lm_acquire_lease_def by (simp add: acquire_lease_others)
    have i: "map job_id (jobs (snd ?l)) = map job_id (jobs w)"
      by (simp add: lm_acquire_lease_def acquire_lease_def Let_def sql_update_def map_job_id_update
            del: map_map)
    have q: "dlq (snd ?l) = dlq w"
      by (simp add: lm_acquire_lease_def acquire_lease_def Let_def sql_update_def)
    note ro = run_once_leased [OF d f, of wid proc t_ack did t_dlq t_failed]
    show ?thesis using s p f r o i q ro by blast
  qed
  have e: "get_by_id jid w = Some r \<longrightarrow>
        (fst (acquire_lease e t s jid ttl' w) \<longleftrightarrow> lease_available t r)"
    using acquire_lease_fst_pk [OF assms(1)] by blast
  have f: "\<not> fst (acquire_lease e t s jid ttl' w) \<longrightarrow> snd (acquire_lease e t s jid ttl' w) = w"
    using acquire_lease_failed by blast
  have g: "\<not> (fst (acquire_lease e1 t1 s1 jid ttl1 w)
          \<and> fst (acquire_lease e2 t2 s2 jid ttl2 (snd (acquire_lease e1 t1 s1 jid ttl1 w))))"
    using acquire_lease_once [OF assms(1)] by blast
  show ?thesis using a b c e f g by blast
qed

text \<open>
  Witness for C1: of two pending jobs the one created at time 50 is dequeued at time 200
  and leased for 300 seconds with the clock readings 201, 202 and 203.
\<close>

theorem dequeue_and_lease_witness:
  "pk_unique (ex_world [ex_job, ex_job2]) \<and> (200::rat) \<le> 202
   \<and> dequeue 200 (ex_world [ex_job, ex_job2]) = Some ex_job2
   \<and> lm_acquire_lease 201 202 203 300 ex_job2 (ex_world [ex_job, ex_job2])
       = (True, ex_world [ex_job, ex_job2\<lparr>status := RUNNING, lease_expires_at := Some 501,
                                           started_at := Some 203\<rparr>])
   \<and> get_by_id ''j2'' (snd (lm_acquire_lease 201 202 203 300 ex_job2 (ex_world [ex_job, ex_job2])))
       = Some (ex_job2\<lparr>status := RUNNING, lease_expires_at := Some 501, started_at := Some 203\<rparr>)"
proof -
  have p: "pk_unique (ex_world [ex_job, ex_job2])"
    by (simp add: pk_unique_def ex_world_def ex_job_def ex_job2_def)
  have t: "(200::rat) \<le> 202" by simp
  have d: "dequeue 200 (ex_world [ex_job, ex_job2]) = Some ex_job2"
    by (simp add: dequeue_def get_pending_jobs_for_dequeue_def lease_available_def ex_world_def
          ex_job_def ex_job2_def)
  have l: "lm_acquire_lease 201 202 203 300 ex_job2 (ex_world [ex_job, ex_job2])
       = (True, ex_world [ex_job, ex_job2\<lparr>status := RUNNING, lease_expires_at := Some 501,
                                           started_at := Some 203\<rparr>])"
    by (simp add: lm_acquire_lease_def acquire_lease_def rowcount_def sql_update_def
          lease_available_def ex_world_def ex_job_def ex_job2_def Let_def)
  have i: "job_id ex_job2 = ''j2''" by (simp add: ex_job2_def)
  have "get_by_id (job_id ex_job2)
          (snd (lm_acquire_lease 201 202 203 300 ex_job2 (ex_world [ex_job, ex_job2])))
       = Some (ex_job2\<lparr>status := RUNNING, lease_expires_at := Some (201 + of_int 300),
                        started_at := Some 203\<rparr>)"
    using dequeue_and_lease [OF p t, where j=ex_job2 and ttl=300 and t_exp=201 and t_start=203] d
    by blast
  then show ?thesis using p d l i by simp
qed

section \<open>Failure handling in the worker\<close>

lemma get_by_id_dlq_update [simp]: "get_by_id jid (w\<lparr>dlq := d\<rparr>) = get_by_id jid w"
  by (simp add: get_by_id_def)

lemma get_by_id_publish_event [simp]: "get_by_id jid (publish_event topic data w) = get_by_id jid w"
  by (simp add: get_by_id_def publish_event_def)

lemma sql_update_frame [simp]:
  "dlq (sql_update c f w) = dlq w" "published (sql_update c f w) = published w"
  by (simp_all add: sql_update_def)

lemma publish_event_frame [simp]:
  "dlq (publish_event topic data w) = dlq w" "jobs (publish_event topic data w) = jobs w"
  "published (publish_event topic data w) = published w @ [(topic, data)]"
  by (simp_all add: publish_event_def)

lemma sql_update_publish_event:
  "sql_update c f (publish_event topic data w) = publish_event topic data (sql_update c f w)"
  by (simp add: sql_update_def publish_event_def)

lemma increment_retry_found:
  assumes "get_by_id jid w = Some r"
  shows "increment_retry jid w
         = (Inr (r\<lparr>retry_count := retry_count r + 1, status := PENDING,
                    lease_expires_at := None, started_at := None, error_message := None\<rparr>),
            sql_update (\<lambda>x. job_id x = jid)
              (\<lambda>r. r\<lparr>retry_count := retry_count r + 1, status := PENDING,
                     lease_expires_at := None, started_at := None, error_message := None\<rparr>) w)"
  using assms get_by_id_job_id [OF assms]
  by (simp add: increment_retry_def get_by_id_sql_update)

lemma move_to_dlq_found:
  assumes "get_by_id (job_id job) w = Some r"
  shows "move_to_dlq new_id now t_failed job msg w
         = (Inr (),
            sql_update (\<lambda>x. job_id x = job_id job) (update_data now DLQ (Some msg))
              (w\<lparr>dlq := dlq w @
                 [\<lparr> dlq_id = new_id, original_job_id = job_id job, dlq_tenant_id = tenant_id job,
                    dlq_payload = payload job, dlq_error_message = Some msg,
                    dlq_retry_count = retry_count job, failed_at = t_failed,
                    dlq_trace_id = trace_id job \<rparr>]\<rparr>))"
  using assms by (simp add: move_to_dlq_def Let_def update_status_found)

lemma update_data_FAILED:
  "update_data now FAILED (Some msg) r
     = (if msg \<noteq> [] then r\<lparr>status := FAILED, error_message := Some msg, completed_at := Some now\<rparr>
        else r\<lparr>status := FAILED, completed_at := Some now\<rparr>)"
  by (simp add: update_data_def)

lemma update_data_DLQ:
  "update_data now DLQ (Some msg) r
     = (if msg \<noteq> [] then r\<lparr>status := DLQ, error_message := Some msg, completed_at := Some now\<rparr>
        else r\<lparr>status := DLQ, completed_at := Some now\<rparr>)"
  by (simp add: update_data_def)

lemma update_data_keeps [simp]:
  "retry_count (update_data now st msg r) = retry_count r"
  "max_retries (update_data now st msg r) = max_retries r"
  "tenant_id (update_data now st msg r) = tenant_id r"
  "payload (update_data now st msg r) = payload r"
  "trace_id (update_data now st msg r) = trace_id r"
  by (simp_all add: update_data_def Let_def)

text \<open>The world after the \<open>except\<close> branch, for a stored job.\<close>

lemma process_job_except_found:
  assumes "get_by_id (job_id job0) w = Some r"
  shows "process_job_except worker_id t_ack new_dlq_id t_dlq t_failed job0 msg w =
    (let rf = update_data t_ack FAILED (Some msg) r;
         w1 = sql_update (\<lambda>x. job_id x = job_id job0) (update_data t_ack FAILED (Some msg)) w
     in if retry_count r < max_retries r then
          (Inr (),
           publish_event (JobEvent_value E_FAILED) (failed_event worker_id msg (Some rf))
             (publish_event (JobEvent_value E_RETRY)
                [(''job_id'', FStr (job_id rf)), (''tenant_id'', FStr (tenant_id rf)),
                 (''retry_count'', FInt (retry_count rf)), (''trace_id'', FStr (trace_id rf))]
                (snd (increment_retry (job_id job0) w1))))
        else
          (Inr (),
           publish_event (JobEvent_value E_FAILED) (failed_event worker_id msg (Some rf))
             (publish_event (JobEvent_value E_DLQ)
                [(''job_id'', FStr (job_id rf)), (''tenant_id'', FStr (tenant_id rf)),
                 (''error_message'', FStr msg), (''trace_id'', FStr (trace_id rf))]
                (snd (move_to_dlq new_dlq_id t_dlq t_failed rf msg w1)))))"
proof -
  let ?rf = "update_data t_ack FAILED (Some msg) r"
  let ?w1 = "sql_update (\<lambda>x. job_id x = job_id job0) (update_data t_ack FAILED (Some msg)) w"
  have i: "job_id r = job_id job0" using assms by (rule get_by_id_job_id)
  have u: "update_status t_ack (job_id job0) FAILED (Some msg) w = (Inr ?rf, ?w1)"
    using assms by (rule update_status_found)
  have g1: "get_by_id (job_id job0) ?w1 = Some ?rf"
    using assms i by (simp add: get_by_id_sql_update)
  have i': "job_id ?rf = job_id job0" using i by simp
  have g1': "get_by_id (job_id ?rf) ?w1 = Some ?rf" using g1 i' by simp
  show ?thesis
    unfolding process_job_except_def u
    using g1 i' increment_retry_found [OF g1] move_to_dlq_found [OF g1']
    by (simp add: can_retry_def Let_def)
qed


lemma failed_event_update_data [simp]:
  "failed_event worker_id msg (Some (update_data now st m r)) = failed_event worker_id msg (Some r)"
  by (simp add: failed_event_def)

lemma process_job_raise:
  assumes "get_by_id (job_id job) w = Some r" and "proc (payload job) = Inl msg"
  shows "process_job wid proc t_ack did t_dlq t_failed job w =
    (let started = (JobEvent_value E_STARTED,
                    [(''job_id'', FStr (job_id job)), (''tenant_id'', FStr (tenant_id job)),
                     (''worker_id'', FStr wid), (''trace_id'', FStr (trace_id job))]);
         failed = (JobEvent_value E_FAILED, failed_event wid msg (Some r));
         w1 = sql_update (\<lambda>x. job_id x = job_id job) (update_data t_ack FAILED (Some msg)) w
     in if retry_count r < max_retries r then
          (Inr (),
           (sql_update (\<lambda>x. job_id x = job_id job)
              (\<lambda>r. r\<lparr>retry_count := retry_count r + 1, status := PENDING,
                     lease_expires_at := None, started_at := None, error_message := None\<rparr>) w1)
            \<lparr>published := published w @
               [started,
                (JobEvent_value E_RETRY,
                 [(''job_id'', FStr (job_id job)), (''tenant_id'', FStr (tenant_id r)),
                  (''retry_count'', FInt (retry_count r)), (''trace_id'', FStr (trace_id r))]),
                failed]\<rparr>)
        else
          (Inr (),
           (sql_update (\<lambda>x. job_id x = job_id job) (update_data t_dlq DLQ (Some msg)) w1)
            \<lparr>dlq := dlq w @
               [\<lparr> dlq_id = did, original_job_id = job_id job, dlq_tenant_id = tenant_id r,
                  dlq_payload = payload r, dlq_error_message = Some msg,
                  dlq_retry_count = retry_count r, failed_at = t_failed,
                  dlq_trace_id = trace_id r \<rparr>],
             published := published w @
               [started,
                (JobEvent_value E_DLQ,
                 [(''job_id'', FStr (job_id job)), (''tenant_id'', FStr (tenant_id r)),
                  (''error_message'', FStr msg), (''trace_id'', FStr (trace_id r))]),
                failed]\<rparr>))"
proof -
  let ?ev = "[(''job_id'', FStr (job_id job)), (''tenant_id'', FStr (tenant_id job)),
              (''worker_id'', FStr wid), (''trace_id'', FStr (trace_id job))]"
  let ?w0 = "publish_event (JobEvent_value E_STARTED) ?ev w"
  let ?rf = "update_data t_ack FAILED (Some msg) r"
  let ?w1 = "sql_update (\<lambda>x. job_id x = job_id job) (update_data t_ack FAILED (Some msg)) ?w0"
  have g0: "get_by_id (job_id job) ?w0 = Some r" using assms(1) by simp
  have i: "job_id r = job_id job" using assms(1) by (rule get_by_id_job_id)
  have g1: "get_by_id (job_id job) ?w1 = Some ?rf"
    using g0 i by (simp add: get_by_id_sql_update)
  have g1': "get_by_id (job_id ?rf) ?w1 = Some ?rf" using g1 i by simp
  have p: "process_job wid proc t_ack did t_dlq t_failed job w
           = process_job_except wid t_ack did t_dlq t_failed job msg ?w0"
    using assms(2) by (simp add: process_job_def)
  have ir: "snd (increment_retry (job_id job) ?w1)
            = sql_update (\<lambda>x. job_id x = job_id job)
                (\<lambda>r. r\<lparr>retry_count := retry_count r + 1, status := PENDING,
                       lease_expires_at := None, started_at := None, error_message := None\<rparr>) ?w1"
    by (simp only: increment_retry_found [OF g1] snd_conv)
  have md: "snd (move_to_dlq did t_dlq t_failed ?rf msg ?w1)
            = sql_update (\<lambda>x. job_id x = job_id ?rf) (update_data t_dlq DLQ (Some msg))
               (?w1\<lparr>dlq := dlq ?w1 @
                 [\<lparr> dlq_id = did, original_job_id = job_id ?rf, dlq_tenant_id = tenant_id ?rf,
                    dlq_payload = payload ?rf, dlq_error_message = Some msg,
                    dlq_retry_count = retry_count ?rf, failed_at = t_failed,
                    dlq_trace_id = trace_id ?rf \<rparr>]\<rparr>)"
    by (simp only: move_to_dlq_found [OF g1'] snd_conv)
  have e: "process_job_except wid t_ack did t_dlq t_failed job msg ?w0 =
     (if retry_count r < max_retries r then
          (Inr (),
           publish_event (JobEvent_value E_FAILED) (failed_event wid msg (Some ?rf))
             (publish_event (JobEvent_value E_RETRY)
                [(''job_id'', FStr (job_id ?rf)), (''tenant_id'', FStr (tenant_id ?rf)),
                 (''retry_count'', FInt (retry_count ?rf)), (''trace_id'', FStr (trace_id ?rf))]
                (snd (increment_retry (job_id job) ?w1))))
        else
          (Inr (),
           publish_event (JobEvent_value E_FAILED) (failed_event wid msg (Some ?rf))
             (publish_event (JobEvent_value E_DLQ)
                [(''job_id'', FStr (job_id ?rf)), (''tenant_id'', FStr (tenant_id ?rf)),
                 (''error_message'', FStr msg), (''trace_id'', FStr (trace_id ?rf))]
                (snd (move_to_dlq did t_dlq t_failed ?rf msg ?w1)))))"
    unfolding process_job_except_found [OF g0] Let_def ..
  show ?thesis
    unfolding p e ir md
    using i
    by (simp add: Let_def sql_update_def publish_event_def)
qed


lemma get_by_id_published_update [simp]: "get_by_id jid (w\<lparr>published := d\<rparr>) = get_by_id jid w"
  by (simp add: get_by_id_def)

lemma process_job_raise_row:
  assumes "get_by_id (job_id job) w = Some r" and "proc (payload job) = Inl msg"
  shows "get_by_id (job_id job) (snd (process_job wid proc t_ack did t_dlq t_failed job w))
         = Some (if retry_count r < max_retries r
                 then r\<lparr>retry_count := retry_count r + 1, status := PENDING,
                        lease_expires_at := None, started_at := None, error_message := None,
                        completed_at := Some t_ack\<rparr>
                 else if msg \<noteq> []
                 then r\<lparr>status := DLQ, error_message := Some msg, completed_at := Some t_dlq\<rparr>
                 else r\<lparr>status := DLQ, completed_at := Some t_dlq\<rparr>)"
  using assms(1) get_by_id_job_id [OF assms(1)]
  unfolding process_job_raise [where proc=proc, OF assms]
  by (simp add: Let_def get_by_id_sql_update update_data_def)

lemma process_job_raise_others:
  assumes "get_by_id (job_id job) w = Some r" and "proc (payload job) = Inl msg"
    and "k \<noteq> job_id job"
  shows "get_by_id k (snd (process_job wid proc t_ack did t_dlq t_failed job w)) = get_by_id k w"
  using assms(3) unfolding process_job_raise [where proc=proc, OF assms(1,2)]
  by (simp add: Let_def get_by_id_other')

lemma process_job_raise_dlq:
  assumes "get_by_id (job_id job) w = Some r" and "proc (payload job) = Inl msg"
  shows "dlq (snd (process_job wid proc t_ack did t_dlq t_failed job w))
         = (if retry_count r < max_retries r then dlq w
            else dlq w @
               [\<lparr> dlq_id = did, original_job_id = job_id job, dlq_tenant_id = tenant_id r,
                  dlq_payload = payload r, dlq_error_message = Some msg,
                  dlq_retry_count = retry_count r, failed_at = t_failed,
                  dlq_trace_id = trace_id r \<rparr>])"
  unfolding process_job_raise [where proc=proc, OF assms] by (simp add: Let_def)

lemma process_job_raise_published:
  assumes "get_by_id (job_id job) w = Some r" and "proc (payload job) = Inl msg"
  shows "published (snd (process_job wid proc t_ack did t_dlq t_failed job w))
         = published w @
             [(JobEvent_value E_STARTED,
               [(''job_id'', FStr (job_id job)), (''tenant_id'', FStr (tenant_id job)),
                (''worker_id'', FStr wid), (''trace_id'', FStr (trace_id job))]),
              (if retry_count r < max_retries r
               then (JobEvent_value E_RETRY,
                     [(''job_id'', FStr (job_id job)), (''tenant_id'', FStr (tenant_id r)),
                      (''retry_count'', FInt (retry_count r)), (''trace_id'', FStr (trace_id r))])
               else (JobEvent_value E_DLQ,
                     [(''job_id'', FStr (job_id job)), (''tenant_id'', FStr (tenant_id r)),
                      (''error_message'', FStr msg), (''trace_id'', FStr (trace_id r))])),
              (JobEvent_value E_FAILED, failed_event wid msg (Some r))]"
  unfolding process_job_raise [where proc=proc, OF assms] by (simp add: Let_def)

lemma process_job_raise_fst:
  assumes "get_by_id (job_id job) w = Some r" and "proc (payload job) = Inl msg"
  shows "fst (process_job wid proc t_ack did t_dlq t_failed job w) = Inr ()"
  unfolding process_job_raise [where proc=proc, OF assms] by (simp add: Let_def)

lemma run_once_raise:
  assumes "pk_unique w" and "t_deq \<le> t_lease" and "dequeue t_deq w = Some j"
    and "proc (payload j) = Inl msg"
  shows "run_once wid proc ttl t_deq t_exp t_lease t_start t_ack did t_dlq t_failed w
         = (True, snd (process_job wid proc t_ack did t_dlq t_failed j (snd (lm_acquire_lease t_exp t_lease t_start ttl j w))))"
    and "get_by_id (job_id j) (snd (lm_acquire_lease t_exp t_lease t_start ttl j w))
         = Some (j\<lparr>status := RUNNING, lease_expires_at := Some (t_exp + of_int ttl),
                   started_at := Some t_start\<rparr>)"
proof -
  note s = dequeue_Some [OF assms(3)]
  have m: "j \<in> set (jobs w)" and av: "lease_available t_deq j" using s by blast+
  have av': "lease_available t_lease j" using av assms(2) by (rule lease_available_mono)
  have g: "get_by_id (job_id j) w = Some j" using assms(1) m by (rule get_by_id_of_row)
  have f: "fst (lm_acquire_lease t_exp t_lease t_start ttl j w)"
    unfolding lm_acquire_lease_def using acquire_lease_fst_pk [OF assms(1) g] av' by blast
  show r: "get_by_id (job_id j) (snd (lm_acquire_lease t_exp t_lease t_start ttl j w))
         = Some (j\<lparr>status := RUNNING, lease_expires_at := Some (t_exp + of_int ttl),
                   started_at := Some t_start\<rparr>)"
    unfolding lm_acquire_lease_def using acquire_lease_row [OF g, of t_exp t_lease t_start ttl] av'
    by simp
  obtain w1 where l: "lm_acquire_lease t_exp t_lease t_start ttl j w = (True, w1)"
    using f by (cases "lm_acquire_lease t_exp t_lease t_start ttl j w") auto
  have r1: "get_by_id (job_id j) w1 = Some (j\<lparr>status := RUNNING,
              lease_expires_at := Some (t_exp + of_int ttl), started_at := Some t_start\<rparr>)"
    using r l by simp
  have "fst (process_job wid proc t_ack did t_dlq t_failed j w1) = Inr ()"
    using process_job_raise_fst [where proc=proc, OF r1 assms(4)] .
  then obtain w2 where p: "process_job wid proc t_ack did t_dlq t_failed j w1 = (Inr (), w2)"
    by (cases "process_job wid proc t_ack did t_dlq t_failed j w1") auto
  show "run_once wid proc ttl t_deq t_exp t_lease t_start t_ack did t_dlq t_failed w
         = (True, snd (process_job wid proc t_ack did t_dlq t_failed j (snd (lm_acquire_lease t_exp t_lease t_start ttl j w))))"
    by (simp add: run_once_def assms(3) l p)
qed

text \<open>
  C4, as the code has it. When the processor raises on the payload of a stored job,
  \<open>process_job\<close> returns normally. Its first store call marks the job \<open>FAILED\<close> with
  \<open>completed_at\<close> set, and with the exception's text as \<open>error_message\<close> when that text is
  not empty (an empty text leaves \<open>error_message\<close> as it was). When the job read back has
  \<open>retry_count < max_retries\<close>, it ends \<open>PENDING\<close> with \<open>retry_count\<close> one higher and its
  lease, \<open>started_at\<close> and \<open>error_message\<close> cleared, nothing is archived, and the events
  published after the start event are the retry event and then the failure event.
  Otherwise it ends \<open>DLQ\<close>, the archive gains one row with the job's payload, retry count
  and trace identifier and the exception's text, and the events published after the start
  event are the dead-letter event and then the failure event. The event topics are the
  values of \<open>JobEvent\<close>. No other job changes. A pending job with \<open>max_retries = 0\<close> that
  \<open>run_once\<close> picks, with a processor that raises on it, is \<open>DLQ\<close> and archived when that
  one call returns.
\<close>

theorem process_job_failure:
  assumes "get_by_id (job_id job) w = Some r" and "proc (payload job) = Inl msg"
    and "process_job wid proc t_ack did t_dlq t_failed job w = (res, w')"
  shows "res = Inr ()
   \<and> get_by_id (job_id job) (snd (update_status t_ack (job_id job) FAILED (Some msg) w))
       = Some (if msg \<noteq> []
               then r\<lparr>status := FAILED, error_message := Some msg, completed_at := Some t_ack\<rparr>
               else r\<lparr>status := FAILED, completed_at := Some t_ack\<rparr>)
   \<and> (retry_count r < max_retries r \<longrightarrow>
        get_by_id (job_id job) w'
          = Some (r\<lparr>retry_count := retry_count r + 1, status := PENDING,
                    lease_expires_at := None, started_at := None, error_message := None,
                    completed_at := Some t_ack\<rparr>)
        \<and> dlq w' = dlq w
        \<and> published w' = published w @
             [(JobEvent_value E_STARTED,
               [(''job_id'', FStr (job_id job)), (''tenant_id'', FStr (tenant_id job)),
                (''worker_id'', FStr wid), (''trace_id'', FStr (trace_id job))]),
              (JobEvent_value E_RETRY,
               [(''job_id'', FStr (job_id job)), (''tenant_id'', FStr (tenant_id r)),
                (''retry_count'', FInt (retry_count r)), (''trace_id'', FStr (trace_id r))]),
              (JobEvent_value E_FAILED, failed_event wid msg (Some r))])
   \<and> (\<not> retry_count r < max_retries r \<longrightarrow>
        get_by_id (job_id job) w'
          = Some (if msg \<noteq> []
                  then r\<lparr>status := DLQ, error_message := Some msg, completed_at := Some t_dlq\<rparr>
                  else r\<lparr>status := DLQ, completed_at := Some t_dlq\<rparr>)
        \<and> dlq w' = dlq w @
             [\<lparr> dlq_id = did, original_job_id = job_id job, dlq_tenant_id = tenant_id r,
                dlq_payload = payload r, dlq_error_message = Some msg,
                dlq_retry_count = retry_count r, failed_at = t_failed,
                dlq_trace_id = trace_id r \<rparr>]
        \<and> published w' = published w @
             [(JobEvent_value E_STARTED,
               [(''job_id'', FStr (job_id job)), (''tenant_id'', FStr (tenant_id job)),
                (''worker_id'', FStr wid), (''trace_id'', FStr (trace_id job))]),
              (JobEvent_value E_DLQ,
               [(''job_id'', FStr (job_id job)), (''tenant_id'', FStr (tenant_id r)),
                (''error_message'', FStr msg), (''trace_id'', FStr (trace_id r))]),
              (JobEvent_value E_FAILED, failed_event wid msg (Some r))])
   \<and> (\<forall>k. k \<noteq> job_id job \<longrightarrow> get_by_id k w' = get_by_id k w)
   \<and> (pk_unique w0 \<and> t_deq \<le> t_lease \<and> dequeue t_deq w0 = Some j \<and> proc (payload j) = Inl msg
        \<and> max_retries j = 0 \<and> 0 \<le> retry_count j \<longrightarrow>
        fst (run_once wid proc ttl t_deq t_exp t_lease t_start t_ack did t_dlq t_failed w0)
        \<and> map_option status
             (get_by_id (job_id j) (snd (run_once wid proc ttl t_deq t_exp t_lease t_start t_ack did t_dlq t_failed w0)))
            = Some DLQ
        \<and> dlq (snd (run_once wid proc ttl t_deq t_exp t_lease t_start t_ack did t_dlq t_failed w0)) = dlq w0 @
             [\<lparr> dlq_id = did, original_job_id = job_id j, dlq_tenant_id = tenant_id j,
                dlq_payload = payload j, dlq_error_message = Some msg,
                dlq_retry_count = retry_count j, failed_at = t_failed,
                dlq_trace_id = trace_id j \<rparr>])"
proof -
  have w': "w' = snd (process_job wid proc t_ack did t_dlq t_failed job w)"
    and res: "res = fst (process_job wid proc t_ack did t_dlq t_failed job w)"
    using assms(3) by simp_all
  have a: "res = Inr ()"
    unfolding res using assms(1,2) by (rule process_job_raise_fst [where proc=proc])
  have b: "get_by_id (job_id job) (snd (update_status t_ack (job_id job) FAILED (Some msg) w))
       = Some (if msg \<noteq> []
               then r\<lparr>status := FAILED, error_message := Some msg, completed_at := Some t_ack\<rparr>
               else r\<lparr>status := FAILED, completed_at := Some t_ack\<rparr>)"
    using assms(1) get_by_id_job_id [OF assms(1)]
    by (simp add: snd_update_status get_by_id_sql_update update_data_def)
  note row = process_job_raise_row [where proc=proc, OF assms(1,2), of wid t_ack did t_dlq t_failed, folded w']
  note dl = process_job_raise_dlq [where proc=proc, OF assms(1,2), of wid t_ack did t_dlq t_failed, folded w']
  note pu = process_job_raise_published [where proc=proc, OF assms(1,2), of wid t_ack did t_dlq t_failed, folded w']
  have c: "retry_count r < max_retries r \<longrightarrow>
        get_by_id (job_id job) w'
          = Some (r\<lparr>retry_count := retry_count r + 1, status := PENDING,
                    lease_expires_at := None, started_at := None, error_message := None,
                    completed_at := Some t_ack\<rparr>)
        \<and> dlq w' = dlq w
        \<and> published w' = published w @
             [(JobEvent_value E_STARTED,
               [(''job_id'', FStr (job_id job)), (''tenant_id'', FStr (tenant_id job)),
                (''worker_id'', FStr wid), (''trace_id'', FStr (trace_id job))]),
              (JobEvent_value E_RETRY,
               [(''job_id'', FStr (job_id job)), (''tenant_id'', FStr (tenant_id r)),
                (''retry_count'', FInt (retry_count r)), (''trace_id'', FStr (trace_id r))]),
              (JobEvent_value E_FAILED, failed_event wid msg (Some r))]"
    using row dl pu by simp
  have d: "\<not> retry_count r < max_retries r \<longrightarrow>
        get_by_id (job_id job) w'
          = Some (if msg \<noteq> []
                  then r\<lparr>status := DLQ, error_message := Some msg, completed_at := Some t_dlq\<rparr>
                  else r\<lparr>status := DLQ, completed_at := Some t_dlq\<rparr>)
        \<and> dlq w' = dlq w @
             [\<lparr> dlq_id = did, original_job_id = job_id job, dlq_tenant_id = tenant_id r,
                dlq_payload = payload r, dlq_error_message = Some msg,
                dlq_retry_count = retry_count r, failed_at = t_failed,
                dlq_trace_id = trace_id r \<rparr>]
        \<and> published w' = published w @
             [(JobEvent_value E_STARTED,
               [(''job_id'', FStr (job_id job)), (''tenant_id'', FStr (tenant_id job)),
                (''worker_id'', FStr wid), (''trace_id'', FStr (trace_id job))]),
              (JobEvent_value E_DLQ,
               [(''job_id'', FStr (job_id job)), (''tenant_id'', FStr (tenant_id r)),
                (''error_message'', FStr msg), (''trace_id'', FStr (trace_id r))]),
              (JobEvent_value E_FAILED, failed_event wid msg (Some r))]"
    using row dl pu by simp
  have e: "\<forall>k. k \<noteq> job_id job \<longrightarrow> get_by_id k w' = get_by_id k w"
    unfolding w' using process_job_raise_others [where proc=proc, OF assms(1,2)] by blast
  have f: "fst (run_once wid proc ttl t_deq t_exp t_lease t_start t_ack did t_dlq t_failed w0)
        \<and> map_option status
             (get_by_id (job_id j) (snd (run_once wid proc ttl t_deq t_exp t_lease t_start t_ack did t_dlq t_failed w0)))
            = Some DLQ
        \<and> dlq (snd (run_once wid proc ttl t_deq t_exp t_lease t_start t_ack did t_dlq t_failed w0)) = dlq w0 @
             [\<lparr> dlq_id = did, original_job_id = job_id j, dlq_tenant_id = tenant_id j,
                dlq_payload = payload j, dlq_error_message = Some msg,
                dlq_retry_count = retry_count j, failed_at = t_failed,
                dlq_trace_id = trace_id j \<rparr>]"
    if h: "pk_unique w0" "t_deq \<le> t_lease" "dequeue t_deq w0 = Some j" "proc (payload j) = Inl msg"
      "max_retries j = 0" "0 \<le> retry_count j"
  proof -
    let ?w1 = "snd (lm_acquire_lease t_exp t_lease t_start ttl j w0)"
    let ?r1 = "j\<lparr>status := RUNNING, lease_expires_at := Some (t_exp + of_int ttl),
                 started_at := Some t_start\<rparr>"
    note ro = run_once_raise(1) [where proc=proc and wid=wid and ttl=ttl and t_exp=t_exp
          and t_start=t_start and t_ack=t_ack and did=did and t_dlq=t_dlq and t_failed=t_failed,
          OF h(1,2,3,4)]
      run_once_raise(2) [where proc=proc and ttl=ttl and t_exp=t_exp and t_start=t_start,
          OF h(1,2,3,4)]
    have n: "\<not> retry_count ?r1 < max_retries ?r1" using h(5,6) by simp
    have q: "dlq ?w1 = dlq w0"
      by (simp add: lm_acquire_lease_def acquire_lease_def Let_def)
    show ?thesis
      unfolding ro(1)
      using n q process_job_raise_row [where proc=proc, OF ro(2) h(4), of wid t_ack did t_dlq t_failed]
        process_job_raise_dlq [where proc=proc, OF ro(2) h(4), of wid t_ack did t_dlq t_failed]
      by simp
  qed
  show ?thesis using a b c d e f by blast
qed

text \<open>
  Witness for C4: the processor raises \<open>boom\<close> on a running job without retries, and on
  the same job picked by \<open>run_once\<close> from the pending state.
\<close>

theorem process_job_failure_witness:
  "get_by_id (job_id (ex_job\<lparr>status := RUNNING\<rparr>)) (ex_world [ex_job\<lparr>status := RUNNING\<rparr>])
     = Some (ex_job\<lparr>status := RUNNING\<rparr>)
   \<and> (\<lambda>_. Inl ''boom'') (payload (ex_job\<lparr>status := RUNNING\<rparr>)) = (Inl ''boom'' :: string + string)
   \<and> get_by_id ''j1''
        (snd (process_job ''w1'' (\<lambda>_. Inl ''boom'') 130 ''d1'' 131 132 (ex_job\<lparr>status := RUNNING\<rparr>)
               (ex_world [ex_job\<lparr>status := RUNNING\<rparr>])))
       = Some (ex_job\<lparr>status := DLQ, error_message := Some ''boom'', completed_at := Some 131\<rparr>)
   \<and> pk_unique (ex_world [ex_job]) \<and> (120::rat) \<le> 122
   \<and> dequeue 120 (ex_world [ex_job]) = Some ex_job
   \<and> max_retries ex_job = 0 \<and> 0 \<le> retry_count ex_job
   \<and> map_option status
        (get_by_id (job_id ex_job)
           (snd (run_once ''w1'' (\<lambda>_. Inl ''boom'') 300 120 121 122 123 130 ''d1'' 131 132 (ex_world [ex_job]))))
       = Some DLQ"
proof -
  let ?r = "ex_job\<lparr>status := RUNNING\<rparr>"
  let ?w = "ex_world [?r]"
  let ?proc = "(\<lambda>_. Inl ''boom'') :: processor"
  have g: "get_by_id (job_id ?r) ?w = Some ?r"
    by (simp add: get_by_id_def ex_world_def ex_job_def)
  have p: "?proc (payload ?r) = Inl ''boom''" by simp
  have s: "process_job ''w1'' ?proc 130 ''d1'' 131 132 ?r ?w
           = (fst (process_job ''w1'' ?proc 130 ''d1'' 131 132 ?r ?w),
              snd (process_job ''w1'' ?proc 130 ''d1'' 131 132 ?r ?w))" by simp
  have n: "\<not> retry_count ?r < max_retries ?r" "job_id ?r = ''j1''" by (simp_all add: ex_job_def)
  have pk: "pk_unique (ex_world [ex_job])" by (simp add: pk_unique_def ex_world_def ex_job_def)
  have t: "(120::rat) \<le> 122" by simp
  have d: "dequeue 120 (ex_world [ex_job]) = Some ex_job"
    by (simp add: dequeue_def get_pending_jobs_for_dequeue_def lease_available_def ex_world_def
          ex_job_def)
  have m: "max_retries ex_job = 0" "0 \<le> retry_count ex_job" by (simp_all add: ex_job_def)
  have p': "?proc (payload ex_job) = Inl ''boom''" by simp
  note T = process_job_failure [where proc="?proc", OF g p s,
      where ?w0.0="ex_world [ex_job]" and t_deq=120 and t_exp=121 and t_lease=122 and t_start=123 and j=ex_job and ttl=300]
  have 1: "get_by_id ''j1'' (snd (process_job ''w1'' ?proc 130 ''d1'' 131 132 ?r ?w))
       = Some (ex_job\<lparr>status := DLQ, error_message := Some ''boom'', completed_at := Some 131\<rparr>)"
    using T n by simp
  have 2: "map_option status
        (get_by_id (job_id ex_job)
           (snd (run_once ''w1'' ?proc 300 120 121 122 123 130 ''d1'' 131 132 (ex_world [ex_job]))))
       = Some DLQ"
    using T pk t d m p' by blast
  show ?thesis using g 1 pk d m 2 by simp
qed

text \<open>
  Counterexample to C4 as stated: the processor raises an exception with an empty text.
  The job marked \<open>FAILED\<close> has no \<open>error_message\<close>, and once moved to the archive the job
  still has none, while the archive row carries the empty text.
\<close>

theorem process_job_empty_message:
  "map (\<lambda>r. (status r, error_message r))
     (jobs (snd (update_status 130 ''j1'' FAILED (Some '''') (ex_world [ex_job\<lparr>status := RUNNING\<rparr>]))))
     = [(FAILED, None)]
   \<and> map (\<lambda>r. (status r, error_message r))
       (jobs (snd (process_job ''w1'' (\<lambda>_. Inl '''') 130 ''d1'' 131 132 (ex_job\<lparr>status := RUNNING\<rparr>)
                     (ex_world [ex_job\<lparr>status := RUNNING\<rparr>]))))
     = [(DLQ, None)]
   \<and> map dlq_error_message
       (dlq (snd (process_job ''w1'' (\<lambda>_. Inl '''') 130 ''d1'' 131 132 (ex_job\<lparr>status := RUNNING\<rparr>)
                    (ex_world [ex_job\<lparr>status := RUNNING\<rparr>]))))
     = [Some '''']"
  by (simp add: process_job_def process_job_except_def move_to_dlq_def update_status_def
        update_data_def sql_update_def get_by_id_def publish_event_def can_retry_def
        ex_world_def ex_job_def Let_def)

section \<open>Retry counts\<close>

lemma retry_ok_refl [simp]: "retry_ok w w"
  by (auto simp: retry_ok_def retry_mono_def)

lemma retry_mono_trans: "retry_mono a b \<Longrightarrow> retry_mono b c \<Longrightarrow> retry_mono a c"
  unfolding retry_mono_def by (metis order_trans)

lemma retry_ok_trans: "retry_ok a b \<Longrightarrow> retry_ok b c \<Longrightarrow> retry_ok a c"
  unfolding retry_ok_def using retry_mono_trans by blast

lemma retry_ok_same_jobs: "jobs w' = jobs w \<Longrightarrow> retry_ok w w'"
  by (auto simp: retry_ok_def retry_mono_def retry_bounded_def pk_unique_def)

lemma retry_ok_publish_event [simp]: "retry_ok w (publish_event topic data w)"
  by (rule retry_ok_same_jobs) simp

lemma retry_ok_sql_update:
  assumes "\<And>r. job_id (f r) = job_id r"
    and "\<And>r. retry_count r \<le> retry_count (f r)"
    and "\<And>r. retry_bounded w \<Longrightarrow> r \<in> set (jobs w) \<Longrightarrow> c r \<Longrightarrow> retry_count (f r) \<le> max_retries (f r)"
  shows "retry_ok w (sql_update c f w)"
proof -
  have m: "retry_mono w (sql_update c f w)"
    unfolding retry_mono_def
  proof
    fix r assume r: "r \<in> set (jobs w)"
    let ?r' = "if c r then f r else r"
    have "?r' \<in> set (jobs (sql_update c f w))" using r by (auto simp: sql_update_def)
    moreover have "job_id ?r' = job_id r \<and> retry_count r \<le> retry_count ?r'"
      using assms(1,2) by simp
    ultimately show "\<exists>r'\<in>set (jobs (sql_update c f w)). job_id r' = job_id r \<and> retry_count r \<le> retry_count r'"
      by blast
  qed
  have b: "retry_bounded (sql_update c f w)" if "retry_bounded w"
    using that assms(3) [OF that] pk_unique_sql_update [OF assms(1), of c w]
    by (auto simp: retry_bounded_def sql_update_def)
  show ?thesis using m b by (simp add: retry_ok_def)
qed


lemma retry_ok_update_status: "retry_ok w (snd (update_status now jid st msg w))"
  unfolding snd_update_status
  by (rule retry_ok_sql_update) (auto simp: retry_bounded_def)

lemma retry_ok_acquire_lease: "retry_ok w (snd (acquire_lease t_exp now t_start jid ttl w))"
  unfolding acquire_lease_def Let_def snd_conv
  by (rule retry_ok_sql_update) (auto simp: retry_bounded_def)

lemma retry_ok_release_lease: "retry_ok w (release_lease jid w)"
  unfolding release_lease_def
  by (rule retry_ok_sql_update) (auto simp: retry_bounded_def)

lemma snd_increment_retry:
  "snd (increment_retry jid w)
     = sql_update (\<lambda>x. job_id x = jid)
         (\<lambda>r. r\<lparr>retry_count := retry_count r + 1, status := PENDING,
                lease_expires_at := None, started_at := None, error_message := None\<rparr>) w"
  by (simp add: increment_retry_def Let_def split: option.splits)

lemma retry_ok_increment_retry:
  assumes "get_by_id jid w = Some job" and "can_retry job"
  shows "retry_ok w (snd (increment_retry jid w))"
  unfolding snd_increment_retry
proof (rule retry_ok_sql_update)
  fix r assume b: "retry_bounded w" and r: "r \<in> set (jobs w)" and i: "job_id r = jid"
  have "job_id r = job_id job" using i get_by_id_job_id [OF assms(1)] by simp
  then have "r = job"
    using b r get_by_id_mem [OF assms(1)] pk_unique_row unfolding retry_bounded_def by blast
  then show "retry_count (r\<lparr>retry_count := retry_count r + 1, status := PENDING,
                lease_expires_at := None, started_at := None, error_message := None\<rparr>)
             \<le> max_retries (r\<lparr>retry_count := retry_count r + 1, status := PENDING,
                lease_expires_at := None, started_at := None, error_message := None\<rparr>)"
    using assms(2) by (simp add: can_retry_def)
qed simp_all

lemma snd_move_to_dlq:
  "snd (move_to_dlq new_id now t_failed job msg w)
     = snd (update_status now (job_id job) DLQ (Some msg)
         (w\<lparr>dlq := dlq w @
            [\<lparr> dlq_id = new_id, original_job_id = job_id job, dlq_tenant_id = tenant_id job,
               dlq_payload = payload job, dlq_error_message = Some msg,
               dlq_retry_count = retry_count job, failed_at = t_failed,
               dlq_trace_id = trace_id job \<rparr>]\<rparr>))"
  by (simp add: move_to_dlq_def Let_def split: prod.splits sum.splits)

lemma retry_ok_move_to_dlq: "retry_ok w (snd (move_to_dlq new_id now t_failed job msg w))"
  unfolding snd_move_to_dlq
  by (rule retry_ok_trans [OF retry_ok_same_jobs retry_ok_update_status]) simp


lemma retry_ok_process_job_except:
  "retry_ok w (snd (process_job_except wid t_ack did t_dlq t_failed job0 msg w))"
proof -
  let ?w1 = "snd (update_status t_ack (job_id job0) FAILED (Some msg) w)"
  have 1: "retry_ok w ?w1" by (rule retry_ok_update_status)
  have r: "retry_ok w (snd (increment_retry (job_id job) ?w1))"
    if "get_by_id (job_id job0) ?w1 = Some job" "can_retry job" for job
  proof -
    have "job_id job = job_id job0" using that(1) by (rule get_by_id_job_id)
    then have "get_by_id (job_id job) ?w1 = Some job" using that(1) by simp
    from retry_ok_increment_retry [OF this that(2)] 1 show ?thesis by (rule retry_ok_trans [rotated])
  qed
  have d: "retry_ok w (snd (move_to_dlq did t_dlq t_failed job msg ?w1))" for job
    using 1 retry_ok_move_to_dlq by (rule retry_ok_trans)
  have p: "retry_ok w x \<Longrightarrow> retry_ok w (publish_event t e x)" for x t e
    using retry_ok_publish_event by (rule retry_ok_trans [rotated])
  have r': "retry_ok w (snd (increment_retry (job_id (the (get_by_id (job_id job0) ?w1))) ?w1))"
    if "get_by_id (job_id job0) ?w1 \<noteq> None" "can_retry (the (get_by_id (job_id job0) ?w1))"
    using that r [of "the (get_by_id (job_id job0) ?w1)"] by auto
  show ?thesis
    by (simp add: process_job_except_def case_prod_beta sum.case_eq_if option.case_eq_if
          1 r' d p)
qed

lemma retry_ok_process_job:
  "retry_ok w (snd (process_job wid proc t_ack did t_dlq t_failed job w))"
proof -
  let ?w0 = "publish_event (JobEvent_value E_STARTED)
                 [(''job_id'', FStr (job_id job)), (''tenant_id'', FStr (tenant_id job)),
                  (''worker_id'', FStr wid), (''trace_id'', FStr (trace_id job))] w"
  have 0: "retry_ok w ?w0" by simp
  have e: "retry_ok w (snd (process_job_except wid t_ack did t_dlq t_failed job m ?w0))" for m
    using 0 retry_ok_process_job_except by (rule retry_ok_trans)
  let ?w2 = "snd (update_status t_ack (job_id job) COMPLETED None ?w0)"
  have 2: "retry_ok w ?w2" using 0 retry_ok_update_status by (rule retry_ok_trans)
  have e2: "retry_ok w (snd (process_job_except wid t_ack did t_dlq t_failed job m ?w2))" for m
    using 2 retry_ok_process_job_except by (rule retry_ok_trans)
  have p: "retry_ok w x \<Longrightarrow> retry_ok w (publish_event t ev x)" for x t ev
    using retry_ok_publish_event by (rule retry_ok_trans [rotated])
  show ?thesis
    using e 2 e2 p
    by (simp add: process_job_def Let_def case_prod_beta sum.case_eq_if)
qed

lemma retry_ok_run_once:
  "retry_ok w (snd (run_once wid proc ttl t_deq t_exp t_lease t_start t_ack did t_dlq t_failed w))"
proof -
  have l: "retry_ok w (snd (lm_acquire_lease t_exp t_lease t_start ttl job w))" for job
    unfolding lm_acquire_lease_def by (rule retry_ok_acquire_lease)
  have p: "retry_ok w (snd (process_job wid proc t_ack did t_dlq t_failed job
                              (snd (lm_acquire_lease t_exp t_lease t_start ttl job w))))" for job
    using l retry_ok_process_job by (rule retry_ok_trans)
  show ?thesis
    by (simp add: run_once_def case_prod_beta sum.case_eq_if option.case_eq_if
          bool.case_eq_if l p)
qed

lemma retry_ok_append:
  assumes "job_id r \<notin> job_id ` set (jobs w)" and "retry_count r \<le> max_retries r"
  shows "retry_ok w (w\<lparr>jobs := jobs w @ [r]\<rparr>)"
  using assms by (auto simp: retry_ok_def retry_mono_def retry_bounded_def pk_unique_def)

lemma retry_ok_submit_job:
  assumes "0 \<le> mr"
  shows "retry_ok w (snd (submit_job nid now ntr user p key mr w))"
proof -
  have a: "retry_ok w (w\<lparr>jobs := jobs w @ [new_Job nid now ntr (user_id user) p key mr]\<rparr>)"
    if "nid \<notin> job_id ` set (jobs w)"
    using that assms by (intro retry_ok_append) (simp_all add: new_Job_def)
  show ?thesis
    by (simp add: submit_job_def enqueue_def create_new_Job Let_def case_prod_beta
          sum.case_eq_if option.case_eq_if a)
qed

lemma retry_ok_create_job:
  "retry_ok w (snd (create_job nid now ntr user p key mr w))"
proof (cases "0 \<le> mr \<and> mr \<le> 10")
  case True
  then have s: "retry_ok w (snd (submit_job nid now ntr user p key mr w))"
    by (simp add: retry_ok_submit_job)
  have p: "retry_ok w x \<Longrightarrow> retry_ok w (publish_event t ev x)" for x t ev
    using retry_ok_publish_event by (rule retry_ok_trans [rotated])
  show ?thesis using True
    by (simp add: create_job_def case_prod_beta sum.case_eq_if s p)
next
  case False
  then show ?thesis by (simp add: create_job_def)
qed

lemma step_retry_ok: "step w w' \<Longrightarrow> retry_ok w w'"
proof (induction rule: step.induct)
  case (submit new_id now new_trace user p key mr w res w')
  then show ?case using retry_ok_create_job [of w new_id now new_trace user p key mr] by simp
next
  case (lease t_exp t_where t_start jid ttl w ok w')
  then show ?case using retry_ok_acquire_lease [of w t_exp t_where t_start jid ttl] by simp
next
  case (acknowledge now jid success msg w w')
  then show ?case using retry_ok_update_status by (auto simp: ack_def)
next
  case (release jid w w')
  then show ?case using retry_ok_release_lease by auto
next
  case (process wid proc t_ack did t_dlq t_failed job w res w')
  then show ?case using retry_ok_process_job [of w wid proc t_ack did t_dlq t_failed job] by simp
next
  case (iterate wid proc ttl t_deq t_exp t_lease t_start t_ack did t_dlq t_failed w ok w')
  then show ?case
    using retry_ok_run_once [of w wid proc ttl t_deq t_exp t_lease t_start t_ack did t_dlq t_failed]
    by simp
qed

lemma steps_retry_ok: "step\<^sup>*\<^sup>* w w' \<Longrightarrow> retry_ok w w'"
  by (induction rule: rtranclp_induct) (auto intro: retry_ok_trans step_retry_ok)

lemma reachable_retry_bounded: "reachable w \<Longrightarrow> retry_bounded w"
proof (induction rule: reachable.induct)
  case initial
  then show ?case by (simp add: retry_bounded_def pk_unique_def)
next
  case (after w w')
  then show ?case using step_retry_ok [of w w'] by (simp add: retry_ok_def)
qed

lemma steps_reachable: "step\<^sup>*\<^sup>* w w' \<Longrightarrow> reachable w \<Longrightarrow> reachable w'"
  by (induction rule: rtranclp_induct) (auto intro: reachable.after)

text \<open>
  C6. In every state reached from the empty store by steps of the system, every job has
  \<open>retry_count \<le> max_retries\<close>; the same holds in every state reached from there; and a
  job stored in the first state is stored in the later one with a \<open>retry_count\<close> at least
  as high. Submissions enter through the route, whose schema admits \<open>max_retries\<close> from 0
  to 10.
\<close>

theorem retry_count_bounded_and_monotone:
  assumes "reachable w"
  shows "(\<forall>r\<in>set (jobs w). retry_count r \<le> max_retries r)
       \<and> (step\<^sup>*\<^sup>* w w' \<longrightarrow>
            (\<forall>r\<in>set (jobs w'). retry_count r \<le> max_retries r)
            \<and> (\<forall>jid r. get_by_id jid w = Some r \<longrightarrow>
                  (\<exists>r'. get_by_id jid w' = Some r' \<and> retry_count r \<le> retry_count r')))"
proof -
  have b: "retry_bounded w" using assms by (rule reachable_retry_bounded)
  have m: "(\<forall>r\<in>set (jobs w'). retry_count r \<le> max_retries r)
            \<and> (\<forall>jid r. get_by_id jid w = Some r \<longrightarrow>
                  (\<exists>r'. get_by_id jid w' = Some r' \<and> retry_count r \<le> retry_count r'))"
    if s: "step\<^sup>*\<^sup>* w w'"
  proof -
    have b': "retry_bounded w'" using steps_reachable [OF s assms] by (rule reachable_retry_bounded)
    have mono: "retry_mono w w'" using steps_retry_ok [OF s] by (simp add: retry_ok_def)
    have "\<exists>r'. get_by_id jid w' = Some r' \<and> retry_count r \<le> retry_count r'"
      if g: "get_by_id jid w = Some r" for jid r
    proof -
      have "r \<in> set (jobs w)" using g by (rule get_by_id_mem)
      then obtain r' where r': "r' \<in> set (jobs w')" "job_id r' = job_id r" "retry_count r \<le> retry_count r'"
        using mono unfolding retry_mono_def by blast
      have "get_by_id (job_id r') w' = Some r'"
        using b' r'(1) unfolding retry_bounded_def by (intro get_by_id_of_row) simp_all
      then show ?thesis using r'(2,3) get_by_id_job_id [OF g] by auto
    qed
    then show ?thesis using b' unfolding retry_bounded_def by blast
  qed
  show ?thesis using b m unfolding retry_bounded_def by blast
qed

text \<open>
  Witness for C6: a job with two retries is submitted into the empty store and then fails
  once in a worker; its \<open>retry_count\<close> goes from 0 to 1.
\<close>

theorem retry_count_bounded_and_monotone_witness:
  "reachable ex_submitted
   \<and> step\<^sup>*\<^sup>* ex_submitted
        (snd (process_job ''w1'' (\<lambda>_. Inl ''boom'') 130 ''d1'' 131 132 ex_job2 ex_submitted))
   \<and> get_by_id ''j2'' ex_submitted = Some ex_job2
   \<and> retry_count ex_job2 \<le> max_retries ex_job2
   \<and> map_option retry_count
        (get_by_id ''j2'' (snd (process_job ''w1'' (\<lambda>_. Inl ''boom'') 130 ''d1'' 131 132 ex_job2 ex_submitted)))
       = Some 1
   \<and> retry_count ex_job2 \<le> 1"
proof -
  let ?proc = "(\<lambda>_. Inl ''boom'') :: processor"
  let ?w2 = "snd (process_job ''w1'' ?proc 130 ''d1'' 131 132 ex_job2 ex_submitted)"
  have c: "create_job ''j2'' 50 ''tr2'' (ex_user\<lparr>user_id := ''t2''\<rparr>) ''{}'' None 2
             \<lparr> jobs = [], dlq = [], published = [] \<rparr> = (Inr ex_job2, ex_submitted)"
    by (simp add: create_job_def submit_job_def check_concurrent_jobs_limit_def
          count_running_jobs_def count_by_status_def enqueue_def create_def new_Job_def
          publish_event_def ex_user_def ex_job2_def ex_submitted_def Let_def)
  have r1: "reachable ex_submitted"
    using reachable.after [OF reachable.initial step.submit [OF c]] .
  have s: "step ex_submitted ?w2"
    by (rule step.process [where res="fst (process_job ''w1'' ?proc 130 ''d1'' 131 132 ex_job2 ex_submitted)"
          and proc="?proc"]) simp
  then have ss: "step\<^sup>*\<^sup>* ex_submitted ?w2" by blast
  have g: "get_by_id (job_id ex_job2) ex_submitted = Some ex_job2"
    by (simp add: get_by_id_def ex_submitted_def)
  have i: "job_id ex_job2 = ''j2''" by (simp add: ex_job2_def)
  have p: "?proc (payload ex_job2) = Inl ''boom''" by simp
  have g2: "map_option retry_count (get_by_id ''j2'' ?w2) = Some 1"
    using process_job_raise_row [where proc="?proc", OF g p, of "''w1''" 130 "''d1''" 131 132] i
    by (simp add: ex_job2_def)
  note T = retry_count_bounded_and_monotone [OF r1, of ?w2]
  have m: "ex_job2 \<in> set (jobs ex_submitted)" by (simp add: ex_submitted_def)
  have b: "retry_count ex_job2 \<le> max_retries ex_job2" using T m by blast
  obtain r' where "get_by_id ''j2'' ?w2 = Some r'" "retry_count ex_job2 \<le> retry_count r'"
    using T ss g i by (metis (no_types, lifting))
  then have "retry_count ex_job2 \<le> 1" using g2 by simp
  then show ?thesis using r1 ss g i b g2 by simp
qed

end
